theory Spec2Isabelle
  imports Main
begin

section \<open>Values read from response bodies\<close>

text \<open>
  The client of \<^verbatim>\<open>src/static/app.js\<close> reads every response with
  \<^verbatim>\<open>response.json()\<close> and then looks at properties of the parsed value. A parsed
  body is a JSON value; \<open>JObj\<close> holds the own properties of the parsed object in
  insertion order. Numbers are kept as integers and printed in decimal digits, which is
  what JavaScript does with every integer below \<open>2 ^ 53\<close> in magnitude; a number with
  a fraction and an integer beyond that range are outside the model.
  A JavaScript value that may be \<^verbatim>\<open>undefined\<close> is a \<open>json option\<close>, with
  \<open>None\<close> for \<^verbatim>\<open>undefined\<close>. Strings are byte lists.
\<close>

datatype json =
    JNull
  | JBool bool
  | JNum int
  | JStr string
  | JArr "json list"
  | JObj "(string \<times> json) list"

type_synonym jsval = "json option"

datatype error = TypeError

text \<open>
  Reading a property \<^verbatim>\<open>result.k\<close>. On \<^verbatim>\<open>null\<close> the read throws; on an object it
  gives the property or \<^verbatim>\<open>undefined\<close>; on every other value it gives
  \<^verbatim>\<open>undefined\<close> for the names this client reads (\<^verbatim>\<open>authenticated\<close>,
  \<^verbatim>\<open>username\<close>, \<^verbatim>\<open>token\<close>, \<^verbatim>\<open>message\<close>, \<^verbatim>\<open>detail\<close>), none of
  which a prototype defines.
\<close>

fun property :: "json \<Rightarrow> string \<Rightarrow> error + jsval" where
  "property JNull k = Inl TypeError"
| "property (JObj kvs) k = Inr (map_of kvs k)"
| "property v k = Inr None"

text \<open>Truth of a value, as \<^verbatim>\<open>if (v)\<close> and \<^verbatim>\<open>v || w\<close> test it.\<close>

fun truthy :: "jsval \<Rightarrow> bool" where
  "truthy None = False"
| "truthy (Some JNull) = False"
| "truthy (Some (JBool b)) = b"
| "truthy (Some (JNum n)) = (n \<noteq> 0)"
| "truthy (Some (JStr s)) = (s \<noteq> [])"
| "truthy (Some (JArr xs)) = True"
| "truthy (Some (JObj kvs)) = True"

text \<open>\<^verbatim>\<open>v || w\<close> where \<open>w\<close> is a string literal.\<close>

definition or_else :: "jsval \<Rightarrow> string \<Rightarrow> jsval" where
  "or_else v w = (if truthy v then v else Some (JStr w))"

fun digits :: "nat \<Rightarrow> string" where
  "digits n =
     (if n < 10 then [''0123456789'' ! n]
      else digits (n div 10) @ [''0123456789'' ! (n mod 10)])"

declare digits.simps [simp del]

fun join :: "string list \<Rightarrow> string" where
  "join [] = []"
| "join [x] = x"
| "join (x # y # ys) = x @ '','' @ join (y # ys)"

text \<open>The string of a value, as \<^verbatim>\<open>String(v)\<close> and a template literal give it.\<close>

definition number_string :: "int \<Rightarrow> string" where
  "number_string n = (if n < 0 then CHR ''-'' # digits (nat (- n)) else digits (nat n))"

fun js_string :: "json \<Rightarrow> string" where
  "js_string JNull = ''null''"
| "js_string (JBool b) = (if b then ''true'' else ''false'')"
| "js_string (JNum n) = number_string n"
| "js_string (JStr s) = s"
| "js_string (JArr xs) = join (map (\<lambda>x. if x = JNull then [] else js_string x) xs)"
| "js_string (JObj kvs) = ''[object Object]''"

fun interpolate :: "jsval \<Rightarrow> string" where
  "interpolate None = ''undefined''"
| "interpolate (Some v) = js_string v"

text \<open>
  The text an element shows after \<^verbatim>\<open>el.textContent = v\<close>: \<^verbatim>\<open>null\<close> and
  \<^verbatim>\<open>undefined\<close> give the empty text.
\<close>

fun as_textContent :: "jsval \<Rightarrow> string" where
  "as_textContent None = []"
| "as_textContent (Some JNull) = []"
| "as_textContent (Some v) = js_string v"

section \<open>The page and the client's variables\<close>

text \<open>
  An element that carries a message: its text and its class list. An element is hidden
  when its class list holds \<^verbatim>\<open>hidden\<close>; assigning \<^verbatim>\<open>className\<close> replaces the
  whole class list.
\<close>

record element =
  textContent :: string
  classList :: "string list"

definition classList_add :: "string \<Rightarrow> string list \<Rightarrow> string list" where
  "classList_add c cs = (if c \<in> set cs then cs else cs @ [c])"

definition classList_remove :: "string \<Rightarrow> string list \<Rightarrow> string list" where
  "classList_remove c cs = removeAll c cs"

definition is_hidden :: "string list \<Rightarrow> bool" where
  "is_hidden cs = (''hidden'' \<in> set cs)"

text \<open>
  A delete button as a click finds it: the values of its two data attributes, as
  \<^verbatim>\<open>getAttribute\<close> gives them, which is \<^verbatim>\<open>null\<close> (here \<open>None\<close>) for an
  attribute that the button does not have.
\<close>

record button =
  data_activity :: "string option"
  data_email :: "string option"

text \<open>
  A card of the list: the markup that was assigned to its \<^verbatim>\<open>innerHTML\<close>, and the
  \<^verbatim>\<open>style.display\<close> that \<^verbatim>\<open>updateDeleteButtonsVisibility\<close> has set on every delete
  button in it since the card was built (\<open>None\<close> while it has not run since). The
  markup is kept as the text that was assigned. The values of the response go into it as
  they are, without escaping, and the elements that the browser builds from it are not
  part of the model.
\<close>

record card =
  card_innerHTML :: string
  delete_btn_display :: "string option"

text \<open>
  An activity as \<^verbatim>\<open>GET /activities\<close> reports it, and the body of that response: the
  entries of the object in the order \<^verbatim>\<open>Object.entries\<close> gives them. The details of
  an entry are \<open>None\<close> when the card template throws on them: they are
  \<^verbatim>\<open>null\<close>, or their \<^verbatim>\<open>participants\<close> are missing or \<^verbatim>\<open>null\<close>, or are not
  an array and have a length above zero. Otherwise they are taken in the shape the
  service documents, with a capacity in the range where JavaScript numbers are exact. A
  body that parses to \<^verbatim>\<open>null\<close>, on which \<^verbatim>\<open>Object.entries\<close> throws before the
  list is touched, does what a body that does not parse does and is counted with it.
\<close>

record activity =
  description :: string
  schedule :: string
  max_participants :: int
  participants :: "string list"

type_synonym roster = "(string \<times> activity option) list"

text \<open>
  The requests the client sends. The last argument of the authorised ones is the value of
  the \<^verbatim>\<open>Authorization\<close> header.
\<close>

datatype request =
    Verify string
  | Login string string
  | Logout string
  | Get_activities
  | Unregister string string string
  | Signup string string string

text \<open>
  How an awaited call ends: \<^verbatim>\<open>fetch\<close> rejects, or it gives a response with its
  \<^verbatim>\<open>ok\<close> flag whose \<^verbatim>\<open>json()\<close> rejects or gives the parsed body.
\<close>

datatype 'a body = Unparseable | Parsed 'a

datatype 'a outcome = Rejected | Response bool "'a body"

text \<open>
  The state: the two variables of the script, the stored item \<^verbatim>\<open>authToken\<close> of
  \<^verbatim>\<open>localStorage\<close>, the elements the script writes, a clock in milliseconds with the
  due times of the pending \<^verbatim>\<open>setTimeout\<close> callbacks (each of them hides
  \<^verbatim>\<open>messageDiv\<close>), the calls that are still awaited and the log of every call sent.
  \<^verbatim>\<open>activitiesList\<close> is the markup last assigned to its \<^verbatim>\<open>innerHTML\<close> followed by
  the cards appended since. The values of the form fields are arguments of the submit
  handlers, and \<^verbatim>\<open>console.error\<close> is not recorded.
\<close>

record state =
  authToken :: jsval
  isAuthenticated :: bool
  localStorage :: "string option"
  activitiesList_innerHTML :: string
  activitiesList :: "card list"
  activitySelect :: "string list"
  messageDiv :: element
  loginMessage :: element
  loginBtn :: "string list"
  userInfo :: "string list"
  usernameDisplay :: string
  authNotice :: "string list"
  signupSubmitBtn_disabled :: bool
  loginModal :: "string list"
  now :: nat
  timers :: "nat list"
  in_flight :: "request list"
  requests :: "request list"

definition fetch :: "request \<Rightarrow> state \<Rightarrow> state" where
  "fetch r s = s\<lparr>in_flight := in_flight s @ [r], requests := requests s @ [r]\<rparr>"

definition setTimeout :: "nat \<Rightarrow> state \<Rightarrow> state" where
  "setTimeout delay s = s\<lparr>timers := timers s @ [now s + delay]\<rparr>"

definition messageDiv_textContent :: "jsval \<Rightarrow> state \<Rightarrow> state" where
  "messageDiv_textContent v s =
     s\<lparr>messageDiv := (messageDiv s)\<lparr>textContent := as_textContent v\<rparr>\<rparr>"

definition messageDiv_className :: "string \<Rightarrow> state \<Rightarrow> state" where
  "messageDiv_className c s = s\<lparr>messageDiv := (messageDiv s)\<lparr>classList := [c]\<rparr>\<rparr>"

definition messageDiv_show :: "state \<Rightarrow> state" where
  "messageDiv_show s =
     s\<lparr>messageDiv := (messageDiv s)\<lparr>classList :=
        classList_remove ''hidden'' (classList (messageDiv s))\<rparr>\<rparr>"

definition messageDiv_hide :: "state \<Rightarrow> state" where
  "messageDiv_hide s =
     s\<lparr>messageDiv := (messageDiv s)\<lparr>classList :=
        classList_add ''hidden'' (classList (messageDiv s))\<rparr>\<rparr>"

definition loginMessage_textContent :: "jsval \<Rightarrow> state \<Rightarrow> state" where
  "loginMessage_textContent v s =
     s\<lparr>loginMessage := (loginMessage s)\<lparr>textContent := as_textContent v\<rparr>\<rparr>"

definition loginMessage_className :: "string \<Rightarrow> state \<Rightarrow> state" where
  "loginMessage_className c s = s\<lparr>loginMessage := (loginMessage s)\<lparr>classList := [c]\<rparr>\<rparr>"

definition loginMessage_show :: "state \<Rightarrow> state" where
  "loginMessage_show s =
     s\<lparr>loginMessage := (loginMessage s)\<lparr>classList :=
        classList_remove ''hidden'' (classList (loginMessage s))\<rparr>\<rparr>"

definition loginMessage_hide :: "state \<Rightarrow> state" where
  "loginMessage_hide s =
     s\<lparr>loginMessage := (loginMessage s)\<lparr>classList :=
        classList_add ''hidden'' (classList (loginMessage s))\<rparr>\<rparr>"

section \<open>Authentication\<close>

text \<open>
  \<^verbatim>\<open>updateDeleteButtonsVisibility\<close>: every delete button of the page gets the
  \<^verbatim>\<open>style.display\<close> that the current \<^verbatim>\<open>isAuthenticated\<close> asks for. The delete
  buttons of the page are those of the cards.
\<close>

definition updateDeleteButtonsVisibility :: "state \<Rightarrow> state" where
  "updateDeleteButtonsVisibility s =
     s\<lparr>activitiesList :=
        map (\<lambda>c. c\<lparr>delete_btn_display :=
               Some (if isAuthenticated s then ''inline'' else ''none'')\<rparr>)
          (activitiesList s)\<rparr>"

text \<open>The bytes of the glyph that precedes the user's name.\<close>

definition user_glyph :: string where
  "user_glyph = [CHR 0xF0, CHR 0x9F, CHR 0x91, CHR 0xA4]"

definition updateUIForAuth :: "jsval \<Rightarrow> state \<Rightarrow> state" where
  "updateUIForAuth username s =
     updateDeleteButtonsVisibility
       (if truthy username then
          s\<lparr>loginBtn := classList_add ''hidden'' (loginBtn s),
            userInfo := classList_remove ''hidden'' (userInfo s),
            usernameDisplay := user_glyph @ '' '' @ interpolate username,
            authNotice := classList_add ''hidden'' (authNotice s),
            signupSubmitBtn_disabled := False\<rparr>
        else
          s\<lparr>loginBtn := classList_remove ''hidden'' (loginBtn s),
            userInfo := classList_add ''hidden'' (userInfo s),
            authNotice := classList_remove ''hidden'' (authNotice s),
            signupSubmitBtn_disabled := True\<rparr>)"

text \<open>
  \<^verbatim>\<open>checkAuth\<close> up to its \<^verbatim>\<open>await\<close>, and from the moment the awaited call ends.
  The \<^verbatim>\<open>catch\<close> branch resets the flag and the page; it leaves the variable
  \<^verbatim>\<open>authToken\<close> and the stored item as they are.
\<close>

definition checkAuth :: "state \<Rightarrow> state" where
  "checkAuth s =
     (if truthy (authToken s) then fetch (Verify (''Bearer '' @ interpolate (authToken s))) s
      else updateUIForAuth (Some JNull) s)"

definition checkAuth_catch :: "state \<Rightarrow> state" where
  "checkAuth_catch s = updateUIForAuth (Some JNull) (s\<lparr>isAuthenticated := False\<rparr>)"

fun checkAuth_resume :: "json outcome \<Rightarrow> state \<Rightarrow> state" where
  "checkAuth_resume Rejected s = checkAuth_catch s"
| "checkAuth_resume (Response ok Unparseable) s = checkAuth_catch s"
| "checkAuth_resume (Response ok (Parsed result)) s =
     (case property result ''authenticated'' of
        Inl e \<Rightarrow> checkAuth_catch s
      | Inr authenticated \<Rightarrow>
          if truthy authenticated then
            (case property result ''username'' of
               Inl e \<Rightarrow> checkAuth_catch (s\<lparr>isAuthenticated := True\<rparr>)
             | Inr username \<Rightarrow> updateUIForAuth username (s\<lparr>isAuthenticated := True\<rparr>))
          else
            updateUIForAuth (Some JNull)
              (s\<lparr>localStorage := None, authToken := Some JNull, isAuthenticated := False\<rparr>))"

text \<open>The three listeners of the login modal.\<close>

definition loginBtn_click :: "state \<Rightarrow> state" where
  "loginBtn_click s = s\<lparr>loginModal := classList_remove ''hidden'' (loginModal s)\<rparr>"

definition closeModal_click :: "state \<Rightarrow> state" where
  "closeModal_click s =
     loginMessage_hide (s\<lparr>loginModal := classList_add ''hidden'' (loginModal s)\<rparr>)"

definition window_click :: "bool \<Rightarrow> state \<Rightarrow> state" where
  "window_click target_is_loginModal s =
     (if target_is_loginModal then
        loginMessage_hide (s\<lparr>loginModal := classList_add ''hidden'' (loginModal s)\<rparr>)
      else s)"

text \<open>
  The submit listener of the login form: the call, and what follows the awaited call.
  The body is parsed before \<^verbatim>\<open>response.ok\<close> is looked at.
\<close>

definition loginForm_submit :: "string \<Rightarrow> string \<Rightarrow> state \<Rightarrow> state" where
  "loginForm_submit username password s = fetch (Login username password) s"

definition loginForm_submit_catch :: "state \<Rightarrow> state" where
  "loginForm_submit_catch s =
     loginMessage_show
       (loginMessage_className ''error''
          (loginMessage_textContent (Some (JStr ''Login failed. Please try again.'')) s))"

fun loginForm_submit_resume :: "json outcome \<Rightarrow> state \<Rightarrow> state" where
  "loginForm_submit_resume Rejected s = loginForm_submit_catch s"
| "loginForm_submit_resume (Response ok Unparseable) s = loginForm_submit_catch s"
| "loginForm_submit_resume (Response ok (Parsed result)) s =
     (if ok then
        (case property result ''token'' of
           Inl e \<Rightarrow> loginForm_submit_catch s
         | Inr token \<Rightarrow>
            (case property result ''username'' of
               Inl e \<Rightarrow> loginForm_submit_catch s
             | Inr username \<Rightarrow>
                 setTimeout 3000
                   (messageDiv_show
                      (messageDiv_className ''success''
                         (messageDiv_textContent
                            (Some (JStr ''Login successful! You can now register students.''))
                            (loginMessage_hide
                               ((updateUIForAuth username
                                   (s\<lparr>authToken := token,
                                      localStorage := Some (interpolate token),
                                      isAuthenticated := True\<rparr>))
                                \<lparr>loginModal := classList_add ''hidden'' (loginModal s)\<rparr>)))))))
      else
        (case property result ''detail'' of
           Inl e \<Rightarrow> loginForm_submit_catch s
         | Inr detail \<Rightarrow>
             loginMessage_show
               (loginMessage_className ''error''
                  (loginMessage_textContent (or_else detail ''Login failed'') s))))"

text \<open>
  The click listener of the logout button. Everything after the \<^verbatim>\<open>try\<close> statement runs
  once the awaited call has ended, whichever way it ended.
\<close>

definition logoutBtn_click :: "state \<Rightarrow> state" where
  "logoutBtn_click s = fetch (Logout (''Bearer '' @ interpolate (authToken s))) s"

definition logoutBtn_click_resume :: "json outcome \<Rightarrow> state \<Rightarrow> state" where
  "logoutBtn_click_resume r s =
     setTimeout 3000
       (messageDiv_show
          (messageDiv_className ''success''
             (messageDiv_textContent (Some (JStr ''Logged out successfully.''))
                (updateUIForAuth (Some JNull)
                   (s\<lparr>localStorage := None, authToken := Some JNull,
                      isAuthenticated := False\<rparr>)))))"

section \<open>The roster\<close>

text \<open>The bytes of the cross on every delete button.\<close>

definition cross_mark :: string where
  "cross_mark = [CHR 0xE2, CHR 0x9D, CHR 0x8C]"

text \<open>
  The three template literals of \<^verbatim>\<open>fetchActivities\<close>, line by line as the source has
  them: the list item of one participant, the participants section, and the markup of
  the card. Every value is put in as it is.
\<close>

definition participant_li :: "bool \<Rightarrow> string \<Rightarrow> string \<Rightarrow> string" where
  \<open>participant_li authenticated name email =
     ''<li><span class="participant-email">''
     @ email
     @ ''</span><button class="delete-btn" data-activity="''
     @ name
     @ ''" data-email="''
     @ email
     @ ''" style="display: ''
     @ (if authenticated then ''inline'' else ''none'')
     @ ''">''
     @ cross_mark
     @ ''</button></li>''\<close>

definition participantsHTML :: "bool \<Rightarrow> string \<Rightarrow> string list \<Rightarrow> string" where
  \<open>participantsHTML authenticated name emails =
     (if length emails > 0 then
        ''<div class="participants-section">\<newline>''
        @ ''              <h5>Participants:</h5>\<newline>''
        @ ''              <ul class="participants-list">\<newline>''
        @ ''                ''
        @ concat (map (participant_li authenticated name) emails)
        @ ''\<newline>''
        @ ''              </ul>\<newline>''
        @ ''            </div>''
      else ''<p><em>No participants yet</em></p>'')\<close>

definition activityCard :: "bool \<Rightarrow> string \<Rightarrow> activity \<Rightarrow> card" where
  \<open>activityCard authenticated name details =
     \<lparr>card_innerHTML =
          ''\<newline>''
          @ ''          <h4>''
          @ name
          @ ''</h4>\<newline>''
          @ ''          <p>''
          @ description details
          @ ''</p>\<newline>''
          @ ''          <p><strong>Schedule:</strong> ''
          @ schedule details
          @ ''</p>\<newline>''
          @ ''          <p><strong>Availability:</strong> ''
          @ number_string (max_participants details - int (length (participants details)))
          @ '' spots left</p>\<newline>''
          @ ''          <div class="participants-container">\<newline>''
          @ ''            ''
          @ participantsHTML authenticated name (participants details)
          @ ''\<newline>''
          @ ''          </div>\<newline>''
          @ ''        '',
      delete_btn_display = None\<rparr>\<close>

text \<open>
  The \<^verbatim>\<open>forEach\<close> over the entries: for each entry the card is built and appended to
  the list, and an option is appended to the dropdown. When the template throws on an
  entry, the loop ends there: what was appended before stays, and the exception is
  passed on together with the state.
\<close>

fun populate :: "roster \<Rightarrow> state \<Rightarrow> error option \<times> state" where
  "populate [] s = (None, s)"
| "populate ((name, None) # entries) s = (Some TypeError, s)"
| "populate ((name, Some details) # entries) s =
     populate entries
       (s\<lparr>activitiesList := activitiesList s @ [activityCard (isAuthenticated s) name details],
          activitySelect := activitySelect s @ [name]\<rparr>)"

definition fetchActivities :: "state \<Rightarrow> state" where
  "fetchActivities s = fetch Get_activities s"

text \<open>
  The \<^verbatim>\<open>catch\<close> branch puts its line in place of the content of the list. It does
  not touch the dropdown.
\<close>

definition fetchActivities_catch :: "state \<Rightarrow> state" where
  "fetchActivities_catch s =
     s\<lparr>activitiesList_innerHTML :=
          ''<p>Failed to load activities. Please try again later.</p>'',
       activitiesList := []\<rparr>"

fun fetchActivities_resume :: "roster outcome \<Rightarrow> state \<Rightarrow> state" where
  "fetchActivities_resume Rejected s = fetchActivities_catch s"
| "fetchActivities_resume (Response ok Unparseable) s = fetchActivities_catch s"
| "fetchActivities_resume (Response ok (Parsed activities)) s =
     (case populate activities (s\<lparr>activitiesList_innerHTML := [], activitiesList := []\<rparr>) of
        (None, s') \<Rightarrow> s'
      | (Some e, s') \<Rightarrow> fetchActivities_catch s')"

text \<open>
  \<^verbatim>\<open>handleUnregister\<close>, the click listener of every delete button; its argument is the
  button clicked. A missing attribute goes into the address as the text
  \<^verbatim>\<open>null\<close>. The second function is what follows the awaited call. The
  \<^verbatim>\<open>catch\<close> branch shows its message and sets no timer.
\<close>

fun attribute_string :: "string option \<Rightarrow> string" where
  "attribute_string None = ''null''"
| "attribute_string (Some v) = v"

definition handleUnregister :: "button \<Rightarrow> state \<Rightarrow> state" where
  "handleUnregister button s =
     (if \<not> isAuthenticated s then
        setTimeout 5000
          (messageDiv_show
             (messageDiv_className ''error''
                (messageDiv_textContent
                   (Some (JStr ''Please login as a teacher to unregister students.'')) s)))
      else
        fetch (Unregister (attribute_string (data_activity button))
                 (attribute_string (data_email button))
                 (''Bearer '' @ interpolate (authToken s))) s)"

definition handleUnregister_catch :: "state \<Rightarrow> state" where
  "handleUnregister_catch s =
     messageDiv_show
       (messageDiv_className ''error''
          (messageDiv_textContent (Some (JStr ''Failed to unregister. Please try again.'')) s))"

fun handleUnregister_resume :: "json outcome \<Rightarrow> state \<Rightarrow> state" where
  "handleUnregister_resume Rejected s = handleUnregister_catch s"
| "handleUnregister_resume (Response ok Unparseable) s = handleUnregister_catch s"
| "handleUnregister_resume (Response ok (Parsed result)) s =
     (if ok then
        (case property result ''message'' of
           Inl e \<Rightarrow> handleUnregister_catch s
         | Inr message \<Rightarrow>
             setTimeout 5000
               (messageDiv_show
                  (fetchActivities
                     (messageDiv_className ''success'' (messageDiv_textContent message s)))))
      else
        (case property result ''detail'' of
           Inl e \<Rightarrow> handleUnregister_catch s
         | Inr detail \<Rightarrow>
             setTimeout 5000
               (messageDiv_show
                  (messageDiv_className ''error''
                     (messageDiv_textContent (or_else detail ''An error occurred'') s)))))"

text \<open>
  The submit listener of the signup form, in the same two parts. Resetting the form
  clears its fields, which are not part of the state.
\<close>

definition signupForm_submit :: "string \<Rightarrow> string \<Rightarrow> state \<Rightarrow> state" where
  "signupForm_submit email activity s =
     (if \<not> isAuthenticated s then
        setTimeout 5000
          (messageDiv_show
             (messageDiv_className ''error''
                (messageDiv_textContent
                   (Some (JStr ''Please login as a teacher to register students.'')) s)))
      else
        fetch (Signup activity email (''Bearer '' @ interpolate (authToken s))) s)"

definition signupForm_submit_catch :: "state \<Rightarrow> state" where
  "signupForm_submit_catch s =
     messageDiv_show
       (messageDiv_className ''error''
          (messageDiv_textContent (Some (JStr ''Failed to sign up. Please try again.'')) s))"

fun signupForm_submit_resume :: "json outcome \<Rightarrow> state \<Rightarrow> state" where
  "signupForm_submit_resume Rejected s = signupForm_submit_catch s"
| "signupForm_submit_resume (Response ok Unparseable) s = signupForm_submit_catch s"
| "signupForm_submit_resume (Response ok (Parsed result)) s =
     (if ok then
        (case property result ''message'' of
           Inl e \<Rightarrow> signupForm_submit_catch s
         | Inr message \<Rightarrow>
             setTimeout 5000
               (messageDiv_show
                  (fetchActivities
                     (messageDiv_className ''success'' (messageDiv_textContent message s)))))
      else
        (case property result ''detail'' of
           Inl e \<Rightarrow> signupForm_submit_catch s
         | Inr detail \<Rightarrow>
             setTimeout 5000
               (messageDiv_show
                  (messageDiv_className ''error''
                     (messageDiv_textContent (or_else detail ''An error occurred'') s)))))"

section \<open>The event loop\<close>

text \<open>
  The listener of \<^verbatim>\<open>DOMContentLoaded\<close>: it reads the stored token into the variable,
  clears the flag, and starts \<^verbatim>\<open>checkAuth\<close> and \<^verbatim>\<open>fetchActivities\<close>; each runs
  up to its first \<^verbatim>\<open>await\<close>.
\<close>

definition DOMContentLoaded :: "state \<Rightarrow> state" where
  "DOMContentLoaded page =
     fetchActivities
       (checkAuth
          (page\<lparr>authToken := (case localStorage page of None \<Rightarrow> Some JNull
                                | Some t \<Rightarrow> Some (JStr t)),
                isAuthenticated := False\<rparr>))"

text \<open>
  Time passes: the clock moves on by \<open>d\<close> milliseconds and every callback that has come
  due runs. Each callback adds \<^verbatim>\<open>hidden\<close> to \<^verbatim>\<open>messageDiv\<close>. No callback is ever
  cancelled: the script never calls \<^verbatim>\<open>clearTimeout\<close>.
\<close>

definition advance :: "nat \<Rightarrow> state \<Rightarrow> state" where
  "advance d s =
     (let t = now s + d in
      (if list_ex (\<lambda>due. due \<le> t) (timers s) then messageDiv_hide s else s)
        \<lparr>now := t, timers := filter (\<lambda>due. t < due) (timers s)\<rparr>)"

text \<open>
  What can happen next: the user acts, an awaited call ends, or time passes. An awaited
  call can end only while it is in flight; the script runs one listener or one
  continuation at a time, to its next \<^verbatim>\<open>await\<close> or to its end.
\<close>

datatype event =
    Click_loginBtn
  | Click_closeModal
  | Click_window bool
  | Submit_loginForm string string
  | Click_logoutBtn
  | Click_delete button
  | Submit_signupForm string string
  | Verify_ends "json outcome"
  | Login_ends "json outcome"
  | Logout_ends "json outcome"
  | Activities_end "roster outcome"
  | Unregister_ends "json outcome"
  | Signup_ends "json outcome"
  | Wait nat

fun is_Verify :: "request \<Rightarrow> bool" where
  "is_Verify (Verify h) = True"
| "is_Verify r = False"

fun is_Login :: "request \<Rightarrow> bool" where
  "is_Login (Login u p) = True"
| "is_Login r = False"

fun is_Logout :: "request \<Rightarrow> bool" where
  "is_Logout (Logout h) = True"
| "is_Logout r = False"

fun is_Unregister :: "request \<Rightarrow> bool" where
  "is_Unregister (Unregister a e h) = True"
| "is_Unregister r = False"

fun is_Signup :: "request \<Rightarrow> bool" where
  "is_Signup (Signup a e h) = True"
| "is_Signup r = False"

text \<open>The first call of a kind that is in flight ends and leaves the list.\<close>

fun remove_first :: "(request \<Rightarrow> bool) \<Rightarrow> request list \<Rightarrow> request list" where
  "remove_first P [] = []"
| "remove_first P (r # rs) = (if P r then rs else r # remove_first P rs)"

definition settle :: "(request \<Rightarrow> bool) \<Rightarrow> (state \<Rightarrow> state) \<Rightarrow> state \<Rightarrow> state" where
  "settle P continuation s =
     (if list_ex P (in_flight s)
      then continuation (s\<lparr>in_flight := remove_first P (in_flight s)\<rparr>)
      else s)"

fun step :: "event \<Rightarrow> state \<Rightarrow> state" where
  "step Click_loginBtn s = loginBtn_click s"
| "step Click_closeModal s = closeModal_click s"
| "step (Click_window target_is_loginModal) s = window_click target_is_loginModal s"
| "step (Submit_loginForm username password) s = loginForm_submit username password s"
| "step Click_logoutBtn s = logoutBtn_click s"
| "step (Click_delete button) s = handleUnregister button s"
| "step (Submit_signupForm email activity) s = signupForm_submit email activity s"
| "step (Verify_ends r) s = settle is_Verify (checkAuth_resume r) s"
| "step (Login_ends r) s = settle is_Login (loginForm_submit_resume r) s"
| "step (Logout_ends r) s = settle is_Logout (logoutBtn_click_resume r) s"
| "step (Activities_end r) s = settle (\<lambda>q. q = Get_activities) (fetchActivities_resume r) s"
| "step (Unregister_ends r) s = settle is_Unregister (handleUnregister_resume r) s"
| "step (Signup_ends r) s = settle is_Signup (signupForm_submit_resume r) s"
| "step (Wait d) s = advance d s"

fun run :: "event list \<Rightarrow> state \<Rightarrow> state" where
  "run [] s = s"
| "run (e # es) s = run es (step e s)"

section \<open>Outcomes and examples\<close>

text \<open>
  The outcomes on which the listeners of the login form, the signup form and the delete
  buttons reach their success branch: the call gave a response, its body parsed, the
  response was \<^verbatim>\<open>ok\<close>, and the parsed value is one whose properties can be read.
\<close>

fun succeeded :: "json outcome \<Rightarrow> bool" where
  "succeeded (Response ok (Parsed result)) = (ok \<and> result \<noteq> JNull)"
| "succeeded r = False"

text \<open>Events that leave the message of the login modal alone.\<close>

fun keeps_loginMessage :: "event \<Rightarrow> bool" where
  "keeps_loginMessage Click_closeModal = False"
| "keeps_loginMessage (Click_window target_is_loginModal) = (\<not> target_is_loginModal)"
| "keeps_loginMessage (Login_ends r) = False"
| "keeps_loginMessage e = True"

text \<open>
  A page for the examples, as it is before the script runs: the list shows a loading
  line, the messages and the modal are hidden, and no token is stored.
\<close>

definition example_page :: state where
  "example_page =
     \<lparr>authToken = None, isAuthenticated = False, localStorage = None,
      activitiesList_innerHTML = ''<p>Loading activities...</p>'',
      activitiesList = [], activitySelect = [],
      messageDiv = \<lparr>textContent = [], classList = [''hidden'']\<rparr>,
      loginMessage = \<lparr>textContent = [], classList = [''hidden'']\<rparr>,
      loginBtn = [], userInfo = [''hidden''], usernameDisplay = [],
      authNotice = [], signupSubmitBtn_disabled = False, loginModal = [''hidden''],
      now = 0, timers = [], in_flight = [], requests = []\<rparr>"

definition chess_details :: activity where
  "chess_details =
     \<lparr>description = ''Learn strategies'', schedule = ''Fridays'',
      max_participants = 10, participants = [''a@x.com'']\<rparr>"

definition chess_details_after :: activity where
  "chess_details_after =
     \<lparr>description = ''Learn strategies'', schedule = ''Fridays'',
      max_participants = 10, participants = [''a@x.com'', ''b@x.com'']\<rparr>"

definition chess_club :: roster where
  "chess_club = [(''Chess Club'', Some chess_details)]"

definition chess_club_after :: roster where
  "chess_club_after = [(''Chess Club'', Some chess_details_after)]"

definition delete_a :: button where
  "delete_a = \<lparr>data_activity = Some ''Chess Club'', data_email = Some ''a@x.com''\<rparr>"

text \<open>A visitor without a stored token, once the roster has arrived.\<close>

definition visitor :: state where
  "visitor = run [Activities_end (Response True (Parsed chess_club))]
               (DOMContentLoaded example_page)"

text \<open>A teacher whose stored token the service has verified, with the same roster.\<close>

definition teacher :: state where
  "teacher =
     run [Verify_ends (Response True (Parsed (JObj [(''authenticated'', JBool True),
                                                    (''username'', JStr ''teacher'')]))),
          Activities_end (Response True (Parsed chess_club))]
       (DOMContentLoaded (example_page\<lparr>localStorage := Some ''T''\<rparr>))"

text \<open>A returning user: a token is stored, and its verification is in flight.\<close>

definition returning :: state where
  "returning = DOMContentLoaded (example_page\<lparr>localStorage := Some ''T''\<rparr>)"

text \<open>Replies of the service used in the examples.\<close>

definition signed_up :: "json outcome" where
  "signed_up =
     Response True (Parsed (JObj [(''message'', JStr ''Signed up b@x.com for Chess Club'')]))"

definition activity_full :: "json outcome" where
  "activity_full = Response False (Parsed (JObj [(''detail'', JStr ''Activity is full'')]))"

definition no_detail :: "json outcome" where
  "no_detail = Response False (Parsed (JObj []))"

definition logged_in :: json where
  "logged_in = JObj [(''token'', JStr ''T1''), (''username'', JStr ''teacher'')]"

definition invalid_credentials :: json where
  "invalid_credentials = JObj [(''detail'', JStr ''Invalid credentials'')]"

text \<open>
  A participant whose address holds a character reference, the reply to the signup of
  that address, and the roster once the service has stored it.
\<close>

definition reference_email :: string where
  "reference_email = ''b&amp;c@x.com''"

definition signed_up_reference :: "json outcome" where
  "signed_up_reference =
     Response True
       (Parsed (JObj [(''message'', JStr ''Signed up b&amp;c@x.com for Chess Club'')]))"

definition chess_club_reference :: roster where
  "chess_club_reference =
     [(''Chess Club'',
       Some \<lparr>description = ''Learn strategies'', schedule = ''Fridays'',
             max_participants = 10, participants = [''a@x.com'', ''b&amp;c@x.com'']\<rparr>)]"

section \<open>Basic facts\<close>

lemmas ops = fetch_def setTimeout_def messageDiv_textContent_def messageDiv_className_def
  messageDiv_show_def messageDiv_hide_def loginMessage_textContent_def
  loginMessage_className_def loginMessage_show_def loginMessage_hide_def
  updateDeleteButtonsVisibility_def updateUIForAuth_def classList_add_def
  classList_remove_def is_hidden_def

lemmas exs = visitor_def teacher_def DOMContentLoaded_def example_page_def checkAuth_def
  fetchActivities_def settle_def chess_club_def delete_a_def

lemma property_not_null: "result \<noteq> JNull \<Longrightarrow> \<exists>v. property result k = Inr v"
  by (cases result) simp_all

lemma succeeded_cases:
  "succeeded r \<Longrightarrow> \<exists>result. r = Response True (Parsed result) \<and> result \<noteq> JNull"
  by (cases r rule: succeeded.cases) simp_all

lemma not_succeeded_cases:
  "\<not> succeeded r \<Longrightarrow>
     r = Rejected \<or> (\<exists>ok. r = Response ok Unparseable) \<or> (\<exists>ok. r = Response ok (Parsed JNull))
     \<or> (\<exists>result. r = Response False (Parsed result) \<and> result \<noteq> JNull)"
  by (cases r rule: succeeded.cases) auto

text \<open>
  On a body without an entry that throws, the loop ends normally and only appends: one
  card and one option for each entry.
\<close>

lemma populate_closed_form:
  "populate (map (\<lambda>(name, details). (name, Some details)) entries) s =
     (None,
      s\<lparr>activitiesList :=
           activitiesList s
           @ map (\<lambda>(name, details). activityCard (isAuthenticated s) name details) entries,
        activitySelect := activitySelect s @ map fst entries\<rparr>)"
proof (induction entries arbitrary: s)
  case Nil
  show ?case by simp
next
  case (Cons e entries)
  obtain name details where e: "e = (name, details)" by (cases e)
  show ?case by (simp add: e Cons.IH)
qed

text \<open>Whether it throws or not, the loop touches nothing but the list and the dropdown.\<close>

lemma populate_frame:
  "(snd (populate entries s))\<lparr>activitiesList := cs, activitySelect := os\<rparr>
     = s\<lparr>activitiesList := cs, activitySelect := os\<rparr>"
proof (induction entries s rule: populate.induct)
  case (1 s)
  show ?case by simp
next
  case (2 name entries s)
  show ?case by simp
next
  case (3 name details entries s)
  then show ?case by simp
qed

text \<open>
  A roster that arrives replaces the cards: on a body without an entry that throws, the
  list then holds the cards built from the entries of the body, in their order, and
  nothing else. The dropdown keeps what it held and gains one option for each entry.
\<close>

lemma activitiesList_after_fetch:
  "activitiesList (fetchActivities_resume
      (Response ok (Parsed (map (\<lambda>(name, details). (name, Some details)) entries))) t)
     = map (\<lambda>(name, details). activityCard (isAuthenticated t) name details) entries"
  by (simp add: populate_closed_form)

lemma activitySelect_after_fetch:
  "activitySelect (fetchActivities_resume
      (Response ok (Parsed (map (\<lambda>(name, details). (name, Some details)) entries))) t)
     = activitySelect t @ map fst entries"
  by (simp add: populate_closed_form)

text \<open>
  When the template throws on an entry, the options appended before it stay in the
  dropdown, and the list shows the line of the \<^verbatim>\<open>catch\<close> branch and no card.
\<close>

lemma options_stay_when_template_throws:
  "activitySelect (fetchActivities_resume
      (Response ok (Parsed [(first, Some details), (second, None), (third, others)])) t)
     = activitySelect t @ [first]
   \<and> activitiesList (fetchActivities_resume
      (Response ok (Parsed [(first, Some details), (second, None), (third, others)])) t) = []
   \<and> activitiesList_innerHTML (fetchActivities_resume
      (Response ok (Parsed [(first, Some details), (second, None), (third, others)])) t)
     = ''<p>Failed to load activities. Please try again later.</p>''"
  by (simp add: fetchActivities_catch_def)

section \<open>The gate\<close>

text \<open>
  Claim C1. While \<^verbatim>\<open>isAuthenticated\<close> is false, a click on a delete button and a
  submit of the signup form are both refused before any call: the log of calls and the
  calls in flight are as before, the list and its cards, the dropdown, the token
  variable and the stored token are as before (nothing but the message and its timers
  changes), and the message element shows the notice that asks for a login, with class
  \<^verbatim>\<open>error\<close> and not hidden.
\<close>

theorem gate_denies_unverified:
  assumes "\<not> isAuthenticated s"
  shows "requests (handleUnregister button s) = requests s
       \<and> in_flight (handleUnregister button s) = in_flight s
       \<and> activitiesList (handleUnregister button s) = activitiesList s
       \<and> activitiesList_innerHTML (handleUnregister button s) = activitiesList_innerHTML s
       \<and> activitySelect (handleUnregister button s) = activitySelect s
       \<and> localStorage (handleUnregister button s) = localStorage s
       \<and> authToken (handleUnregister button s) = authToken s
       \<and> (handleUnregister button s)\<lparr>messageDiv := messageDiv s, timers := timers s\<rparr> = s
       \<and> messageDiv (handleUnregister button s) =
           \<lparr>textContent = ''Please login as a teacher to unregister students.'',
            classList = [''error'']\<rparr>
       \<and> \<not> is_hidden (classList (messageDiv (handleUnregister button s)))
       \<and> requests (signupForm_submit email activity s) = requests s
       \<and> in_flight (signupForm_submit email activity s) = in_flight s
       \<and> activitiesList (signupForm_submit email activity s) = activitiesList s
       \<and> activitiesList_innerHTML (signupForm_submit email activity s)
           = activitiesList_innerHTML s
       \<and> activitySelect (signupForm_submit email activity s) = activitySelect s
       \<and> localStorage (signupForm_submit email activity s) = localStorage s
       \<and> authToken (signupForm_submit email activity s) = authToken s
       \<and> (signupForm_submit email activity s)\<lparr>messageDiv := messageDiv s, timers := timers s\<rparr>
           = s
       \<and> messageDiv (signupForm_submit email activity s) =
           \<lparr>textContent = ''Please login as a teacher to register students.'',
            classList = [''error'']\<rparr>
       \<and> \<not> is_hidden (classList (messageDiv (signupForm_submit email activity s)))"
  using assms by (simp add: handleUnregister_def signupForm_submit_def ops)

text \<open>
  The scenario of the specification: the roster holds the chess club with one
  participant, and a visitor who is not logged in tries to unregister that participant.
  The list keeps the one card that was built from that roster.
\<close>

theorem gate_denies_unverified_witness:
  "\<not> isAuthenticated visitor
   \<and> requests (handleUnregister delete_a visitor) = [Get_activities]
   \<and> in_flight (handleUnregister delete_a visitor) = []
   \<and> activitiesList (handleUnregister delete_a visitor)
       = [activityCard False ''Chess Club'' chess_details]
   \<and> localStorage (handleUnregister delete_a visitor) = None
   \<and> textContent (messageDiv (handleUnregister delete_a visitor)) =
        ''Please login as a teacher to unregister students.''
   \<and> requests (signupForm_submit ''b@x.com'' ''Chess Club'' visitor) = [Get_activities]
   \<and> activitiesList (signupForm_submit ''b@x.com'' ''Chess Club'' visitor)
       = [activityCard False ''Chess Club'' chess_details]"
proof -
  have v: "\<not> isAuthenticated visitor" by (simp add: exs ops)
  have r: "requests visitor = [Get_activities]" by (simp add: exs ops)
  have f: "in_flight visitor = []" by (simp add: exs ops)
  have cs: "activitiesList visitor = [activityCard False ''Chess Club'' chess_details]"
    by (simp add: exs ops)
  have ls: "localStorage visitor = None" by (simp add: exs ops)
  show ?thesis
    using v r f cs ls
      gate_denies_unverified [OF v, of delete_a "''b@x.com''" "''Chess Club''"]
    by simp
qed

section \<open>Verification at startup\<close>

text \<open>
  Claim C2, as amended. When the verification of the stored token ends with a body whose
  \<^verbatim>\<open>authenticated\<close> is false or missing, the stored token is removed, the token
  variable is \<^verbatim>\<open>null\<close>, the flag is false and the page shows the logged-out
  controls (the user area hidden, the login button shown, the signup button disabled).
  When instead the call is rejected, or the body does not parse, or it parses to
  \<^verbatim>\<open>null\<close>, the flag is false and the page shows the logged-out controls, and the
  stored token and the token variable are kept as they were.
\<close>

theorem checkAuth_resume_unverified:
  "(property result ''authenticated'' = Inr a \<and> \<not> truthy a \<longrightarrow>
      localStorage (checkAuth_resume (Response ok (Parsed result)) s) = None
    \<and> authToken (checkAuth_resume (Response ok (Parsed result)) s) = Some JNull
    \<and> \<not> isAuthenticated (checkAuth_resume (Response ok (Parsed result)) s)
    \<and> is_hidden (userInfo (checkAuth_resume (Response ok (Parsed result)) s))
    \<and> \<not> is_hidden (loginBtn (checkAuth_resume (Response ok (Parsed result)) s))
    \<and> signupSubmitBtn_disabled (checkAuth_resume (Response ok (Parsed result)) s))
 \<and> (r = Rejected \<or> r = Response ok Unparseable \<or> r = Response ok (Parsed JNull) \<longrightarrow>
      localStorage (checkAuth_resume r s) = localStorage s
    \<and> authToken (checkAuth_resume r s) = authToken s
    \<and> \<not> isAuthenticated (checkAuth_resume r s)
    \<and> is_hidden (userInfo (checkAuth_resume r s))
    \<and> \<not> is_hidden (loginBtn (checkAuth_resume r s))
    \<and> signupSubmitBtn_disabled (checkAuth_resume r s))"
  by (auto simp: checkAuth_catch_def ops)

text \<open>
  Both halves on the returning user: the service answers that the token is not valid,
  and the call is rejected.
\<close>

theorem checkAuth_resume_unverified_witness:
  "property (JObj [(''authenticated'', JBool False)]) ''authenticated''
     = Inr (Some (JBool False))
   \<and> \<not> truthy (Some (JBool False))
   \<and> localStorage (checkAuth_resume
        (Response True (Parsed (JObj [(''authenticated'', JBool False)]))) returning) = None
   \<and> authToken (checkAuth_resume
        (Response True (Parsed (JObj [(''authenticated'', JBool False)]))) returning)
       = Some JNull
   \<and> \<not> isAuthenticated (checkAuth_resume
        (Response True (Parsed (JObj [(''authenticated'', JBool False)]))) returning)
   \<and> localStorage (checkAuth_resume Rejected returning) = Some ''T''
   \<and> authToken (checkAuth_resume Rejected returning) = Some (JStr ''T'')
   \<and> \<not> isAuthenticated (checkAuth_resume Rejected returning)"
proof -
  have ls: "localStorage returning = Some ''T''" by (simp add: returning_def exs ops)
  have tk: "authToken returning = Some (JStr ''T'')"
    by (simp add: returning_def exs ops)
  show ?thesis
    using ls tk
      checkAuth_resume_unverified [of "JObj [(''authenticated'', JBool False)]"
        "Some (JBool False)" True returning Rejected]
    by simp
qed

text \<open>
  The claim as it was stated asks for the stored token to be cleared on a failed call as
  well. On the returning user whose verification call is rejected, the stored token and
  the token variable are still there.
\<close>

theorem checkAuth_rejected_keeps_token:
  "localStorage (run [Verify_ends Rejected] returning) = Some ''T''
   \<and> authToken (run [Verify_ends Rejected] returning) = Some (JStr ''T'')
   \<and> requests returning = [Verify ''Bearer T'', Get_activities]"
  by (simp add: returning_def exs checkAuth_catch_def ops)

section \<open>Register and unregister\<close>

text \<open>
  When a signup or an unregister call succeeds (the response is \<^verbatim>\<open>ok\<close> and its
  body parses to a value other than \<^verbatim>\<open>null\<close>), the listener sends exactly one
  \<^verbatim>\<open>GET /activities\<close> and does not touch the list itself: the cards, the markup of
  the list and the dropdown are as before.
\<close>

lemma success_sends_one_refresh:
  assumes "succeeded r"
  shows "requests (handleUnregister_resume r s) = requests s @ [Get_activities]
       \<and> in_flight (handleUnregister_resume r s) = in_flight s @ [Get_activities]
       \<and> activitiesList (handleUnregister_resume r s) = activitiesList s
       \<and> activitiesList_innerHTML (handleUnregister_resume r s) = activitiesList_innerHTML s
       \<and> activitySelect (handleUnregister_resume r s) = activitySelect s
       \<and> requests (signupForm_submit_resume r s) = requests s @ [Get_activities]
       \<and> in_flight (signupForm_submit_resume r s) = in_flight s @ [Get_activities]
       \<and> activitiesList (signupForm_submit_resume r s) = activitiesList s
       \<and> activitiesList_innerHTML (signupForm_submit_resume r s) = activitiesList_innerHTML s
       \<and> activitySelect (signupForm_submit_resume r s) = activitySelect s"
proof -
  obtain result where r: "r = Response True (Parsed result)" and n: "result \<noteq> JNull"
    using succeeded_cases [OF assms] by blast
  obtain message where m: "property result ''message'' = Inr message"
    using property_not_null [OF n] by blast
  show ?thesis by (simp add: r m fetchActivities_def ops)
qed

text \<open>
  Claim C3 asks that after a successful signup or unregister the client sends exactly
  one refresh, changes nothing in the list by itself, and then holds the roster as the
  service has it. The first two hold on every success, as shown above. The third fails
  on a value that holds a character reference or markup: \<^verbatim>\<open>fetchActivities\<close> puts
  the name, the description, the schedule and every address into the markup of the card
  as they are, while it fills the option of the dropdown through \<^verbatim>\<open>textContent\<close>.
  The teacher registers the address \<^verbatim>\<open>b&amp;c@x.com\<close>, the service accepts it, and
  the one refresh that follows brings the roster with that address. The markup assigned
  to the card then holds the address unescaped, in the text of the list item and in the
  \<^verbatim>\<open>data-email\<close> attribute of its delete button; a browser reads the reference in
  both places, so the page shows, and the button would unregister, \<^verbatim>\<open>b&c@x.com\<close>,
  an address that the service does not have.
\<close>

theorem refresh_puts_values_unescaped:
  \<open>requests
      (run [Submit_signupForm reference_email ''Chess Club'', Signup_ends signed_up_reference,
            Activities_end (Response True (Parsed chess_club_reference))] teacher)
     = [Verify ''Bearer T'', Get_activities,
        Signup ''Chess Club'' ''b&amp;c@x.com'' ''Bearer T'', Get_activities]
   \<and> activitiesList
      (run [Submit_signupForm reference_email ''Chess Club'', Signup_ends signed_up_reference]
         teacher)
     = activitiesList teacher
   \<and> map card_innerHTML (activitiesList
      (run [Submit_signupForm reference_email ''Chess Club'', Signup_ends signed_up_reference,
            Activities_end (Response True (Parsed chess_club_reference))] teacher))
     = [''\<newline>''
         @ ''          <h4>Chess Club</h4>\<newline>''
         @ ''          <p>Learn strategies</p>\<newline>''
         @ ''          <p><strong>Schedule:</strong> Fridays</p>\<newline>''
         @ ''          <p><strong>Availability:</strong> 8 spots left</p>\<newline>''
         @ ''          <div class="participants-container">\<newline>''
         @ ''            <div class="participants-section">\<newline>''
         @ ''              <h5>Participants:</h5>\<newline>''
         @ ''              <ul class="participants-list">\<newline>''
         @ ''                <li><span class="participant-email">a@x.com</span>''
         @ ''<button class="delete-btn" data-activity="Chess Club" data-email="a@x.com"''
         @ '' style="display: inline">'' @ cross_mark @ ''</button></li>''
         @ ''<li><span class="participant-email">b&amp;c@x.com</span>''
         @ ''<button class="delete-btn" data-activity="Chess Club" data-email="b&amp;c@x.com"''
         @ '' style="display: inline">'' @ cross_mark @ ''</button></li>\<newline>''
         @ ''              </ul>\<newline>''
         @ ''            </div>\<newline>''
         @ ''          </div>\<newline>''
         @ ''        '']\<close>
  by (simp add: exs reference_email_def signed_up_reference_def chess_club_reference_def
        signupForm_submit_def activityCard_def participantsHTML_def participant_li_def
        number_string_def digits.simps ops)

text \<open>
  Claim C4. When a signup or an unregister call fails (it is rejected, its body does not
  parse or parses to \<^verbatim>\<open>null\<close>, or the response is not \<^verbatim>\<open>ok\<close>), no call is
  sent, so no refresh, and nothing changes but the message element and its timers: the
  list and its cards, the token variable, the flag and the stored token are as before.
  The message has class \<^verbatim>\<open>error\<close>; its text is the \<^verbatim>\<open>detail\<close> of the body when
  that is a non-empty string, the text \<^verbatim>\<open>An error occurred\<close> when the body has no
  \<^verbatim>\<open>detail\<close> or an empty one, and the fixed text of the \<^verbatim>\<open>catch\<close> branch when
  there is no body to read.
\<close>

theorem failure_reports_and_keeps_state:
  assumes "\<not> succeeded r"
  shows "requests (handleUnregister_resume r s) = requests s
       \<and> in_flight (handleUnregister_resume r s) = in_flight s
       \<and> activitiesList (handleUnregister_resume r s) = activitiesList s
       \<and> activitiesList_innerHTML (handleUnregister_resume r s) = activitiesList_innerHTML s
       \<and> authToken (handleUnregister_resume r s) = authToken s
       \<and> isAuthenticated (handleUnregister_resume r s) = isAuthenticated s
       \<and> localStorage (handleUnregister_resume r s) = localStorage s
       \<and> (handleUnregister_resume r s)\<lparr>messageDiv := messageDiv s, timers := timers s\<rparr> = s
       \<and> classList (messageDiv (handleUnregister_resume r s)) = [''error'']
       \<and> (r = Response False (Parsed refusal)
            \<and> property refusal ''detail'' = Inr (Some (JStr d)) \<and> d \<noteq> [] \<longrightarrow>
          textContent (messageDiv (handleUnregister_resume r s)) = d)
       \<and> (r = Response False (Parsed refusal) \<and> property refusal ''detail'' = Inr v
            \<and> \<not> truthy v \<longrightarrow>
          textContent (messageDiv (handleUnregister_resume r s)) = ''An error occurred'')
       \<and> (r = Rejected \<or> r = Response ok Unparseable \<or> r = Response ok (Parsed JNull) \<longrightarrow>
          textContent (messageDiv (handleUnregister_resume r s)) =
            ''Failed to unregister. Please try again.'')
       \<and> requests (signupForm_submit_resume r s) = requests s
       \<and> in_flight (signupForm_submit_resume r s) = in_flight s
       \<and> activitiesList (signupForm_submit_resume r s) = activitiesList s
       \<and> activitiesList_innerHTML (signupForm_submit_resume r s) = activitiesList_innerHTML s
       \<and> authToken (signupForm_submit_resume r s) = authToken s
       \<and> isAuthenticated (signupForm_submit_resume r s) = isAuthenticated s
       \<and> localStorage (signupForm_submit_resume r s) = localStorage s
       \<and> (signupForm_submit_resume r s)\<lparr>messageDiv := messageDiv s, timers := timers s\<rparr> = s
       \<and> classList (messageDiv (signupForm_submit_resume r s)) = [''error'']
       \<and> (r = Response False (Parsed refusal)
            \<and> property refusal ''detail'' = Inr (Some (JStr d)) \<and> d \<noteq> [] \<longrightarrow>
          textContent (messageDiv (signupForm_submit_resume r s)) = d)
       \<and> (r = Response False (Parsed refusal) \<and> property refusal ''detail'' = Inr v
            \<and> \<not> truthy v \<longrightarrow>
          textContent (messageDiv (signupForm_submit_resume r s)) = ''An error occurred'')
       \<and> (r = Rejected \<or> r = Response ok Unparseable \<or> r = Response ok (Parsed JNull) \<longrightarrow>
          textContent (messageDiv (signupForm_submit_resume r s)) =
            ''Failed to sign up. Please try again.'')"
proof -
  consider (rejected) "r = Rejected"
    | (unparseable) ok' where "r = Response ok' Unparseable"
    | (null) ok' where "r = Response ok' (Parsed JNull)"
    | (refused) result where "r = Response False (Parsed result)" "result \<noteq> JNull"
    using not_succeeded_cases [OF assms] by blast
  then show ?thesis
  proof cases
    case rejected
    then show ?thesis
      by (simp add: handleUnregister_catch_def signupForm_submit_catch_def ops)
  next
    case unparseable
    then show ?thesis
      by (simp add: handleUnregister_catch_def signupForm_submit_catch_def ops)
  next
    case null
    then show ?thesis
      by (auto simp: handleUnregister_catch_def signupForm_submit_catch_def ops)
  next
    case refused
    obtain detail where dt: "property result ''detail'' = Inr detail"
      using property_not_null [OF refused(2)] by blast
    show ?thesis
      by (auto simp: refused dt or_else_def ops)
  qed
qed

text \<open>
  The teacher's signup is refused with a detail, refused without one, and rejected by
  the network.
\<close>

theorem failure_reports_and_keeps_state_witness:
  "\<not> succeeded activity_full \<and> \<not> succeeded no_detail \<and> \<not> succeeded Rejected
   \<and> property (JObj [(''detail'', JStr ''Activity is full'')]) ''detail''
       = Inr (Some (JStr ''Activity is full''))
   \<and> property (JObj []) ''detail'' = Inr None \<and> \<not> truthy None
   \<and> textContent (messageDiv (signupForm_submit_resume activity_full teacher))
       = ''Activity is full''
   \<and> textContent (messageDiv (handleUnregister_resume no_detail teacher))
       = ''An error occurred''
   \<and> textContent (messageDiv (handleUnregister_resume Rejected teacher))
       = ''Failed to unregister. Please try again.''
   \<and> textContent (messageDiv (signupForm_submit_resume Rejected teacher))
       = ''Failed to sign up. Please try again.''
   \<and> requests (signupForm_submit_resume activity_full teacher)
       = [Verify ''Bearer T'', Get_activities]
   \<and> activitiesList (signupForm_submit_resume activity_full teacher)
       = [activityCard True ''Chess Club'' chess_details]
   \<and> localStorage (signupForm_submit_resume activity_full teacher) = Some ''T''
   \<and> isAuthenticated (signupForm_submit_resume activity_full teacher)"
proof -
  have a: "\<not> succeeded activity_full" by (simp add: activity_full_def)
  have b: "\<not> succeeded no_detail" by (simp add: no_detail_def)
  have c: "\<not> succeeded Rejected" by simp
  have r: "requests teacher = [Verify ''Bearer T'', Get_activities]" by (simp add: exs ops)
  have cs: "activitiesList teacher = [activityCard True ''Chess Club'' chess_details]"
    by (simp add: exs ops)
  have ls: "localStorage teacher = Some ''T''" by (simp add: exs ops)
  have au: "isAuthenticated teacher" by (simp add: exs ops)
  show ?thesis
    using a b c r cs ls au
      failure_reports_and_keeps_state [OF a, of teacher
        "JObj [(''detail'', JStr ''Activity is full'')]" "''Activity is full''" None True]
      failure_reports_and_keeps_state [OF b, of teacher "JObj []" "[]" None True]
      failure_reports_and_keeps_state [OF c, of teacher JNull "[]" None True]
    by (simp add: activity_full_def no_detail_def)
qed

section \<open>Login and logout\<close>



text \<open>
  Claim C6. Once the logout call has ended, whichever way it ended, the stored token is
  removed, the token variable is \<^verbatim>\<open>null\<close>, the flag is false and the page shows
  the logged-out controls. This holds for the continuation on every outcome and every
  state, and so for a click on the logout button followed by the end of the call.
\<close>

theorem logout_always_clears:
  "localStorage (logoutBtn_click_resume r s) = None
 \<and> authToken (logoutBtn_click_resume r s) = Some JNull
 \<and> \<not> isAuthenticated (logoutBtn_click_resume r s)
 \<and> is_hidden (userInfo (logoutBtn_click_resume r s))
 \<and> \<not> is_hidden (loginBtn (logoutBtn_click_resume r s))
 \<and> localStorage (run [Click_logoutBtn, Logout_ends r] s) = None
 \<and> authToken (run [Click_logoutBtn, Logout_ends r] s) = Some JNull
 \<and> \<not> isAuthenticated (run [Click_logoutBtn, Logout_ends r] s)"
  by (simp add: logoutBtn_click_resume_def logoutBtn_click_def settle_def ops)

section \<open>The dropdown\<close>

text \<open>
  Claim C7 asks that after every successful fetch the list and the dropdown hold exactly
  one entry for each activity of the response, with nothing left from earlier fetches.
  The list does: \<^verbatim>\<open>fetchActivities\<close> empties it before it appends the cards. The
  dropdown does not: the options are appended to it and it is never emptied. After the
  teacher's signup and the refresh that follows it, the response holds one activity, the
  list holds one card, the card built from the activity of the response, and the
  dropdown holds two options for the one activity, that of the first fetch and that of
  the refresh.
\<close>

theorem dropdown_accumulates_options:
  "map fst chess_club_after = [''Chess Club'']
   \<and> length (activitiesList
        (run [Submit_signupForm ''b@x.com'' ''Chess Club'', Signup_ends signed_up,
              Activities_end (Response True (Parsed chess_club_after))] teacher)) = 1
   \<and> activitiesList
        (run [Submit_signupForm ''b@x.com'' ''Chess Club'', Signup_ends signed_up,
              Activities_end (Response True (Parsed chess_club_after))] teacher)
       = [activityCard True ''Chess Club'' chess_details_after]
   \<and> activitiesList_innerHTML
        (run [Submit_signupForm ''b@x.com'' ''Chess Club'', Signup_ends signed_up,
              Activities_end (Response True (Parsed chess_club_after))] teacher) = []
   \<and> activitySelect
        (run [Submit_signupForm ''b@x.com'' ''Chess Club'', Signup_ends signed_up,
              Activities_end (Response True (Parsed chess_club_after))] teacher)
       = [''Chess Club'', ''Chess Club'']"
  by (simp add: exs signed_up_def chess_club_after_def signupForm_submit_def ops)

section \<open>The clock, the timers and the two messages\<close>

text \<open>
  No listener and no continuation moves the clock or removes a timer, and only the login
  listener and the two listeners that close the modal write the message of the modal.
\<close>

lemma populate_clock:
  "now (snd (populate entries s)) = now s
   \<and> timers (snd (populate entries s)) = timers s
   \<and> loginMessage (snd (populate entries s)) = loginMessage s"
  by (induction entries s rule: populate.induct) simp_all

lemma checkAuth_resume_clock:
  "now (checkAuth_resume r s) = now s \<and> timers (checkAuth_resume r s) = timers s
   \<and> loginMessage (checkAuth_resume r s) = loginMessage s"
  by (cases r rule: succeeded.cases)
     (simp_all add: checkAuth_catch_def ops split: sum.splits)

lemma loginForm_submit_resume_clock:
  "now (loginForm_submit_resume r s) = now s
   \<and> set (timers s) \<subseteq> set (timers (loginForm_submit_resume r s))"
  by (cases r rule: succeeded.cases)
     (auto simp: loginForm_submit_catch_def ops split: sum.splits)

lemma logoutBtn_click_resume_clock:
  "now (logoutBtn_click_resume r s) = now s
   \<and> set (timers s) \<subseteq> set (timers (logoutBtn_click_resume r s))
   \<and> loginMessage (logoutBtn_click_resume r s) = loginMessage s"
  by (auto simp: logoutBtn_click_resume_def ops)

lemma fetchActivities_resume_clock:
  "now (fetchActivities_resume r s) = now s
   \<and> timers (fetchActivities_resume r s) = timers s
   \<and> loginMessage (fetchActivities_resume r s) = loginMessage s"
proof (cases r)
  case Rejected
  then show ?thesis by (simp add: fetchActivities_catch_def)
next
  case (Response ok b)
  show ?thesis
  proof (cases b)
    case Unparseable
    with Response show ?thesis by (simp add: fetchActivities_catch_def)
  next
    case (Parsed activities)
    obtain e s' where p:
      "populate activities (s\<lparr>activitiesList_innerHTML := [], activitiesList := []\<rparr>) = (e, s')"
      by (cases "populate activities (s\<lparr>activitiesList_innerHTML := [], activitiesList := []\<rparr>)")
    have "now s' = now s \<and> timers s' = timers s \<and> loginMessage s' = loginMessage s"
      using populate_clock
        [of activities "s\<lparr>activitiesList_innerHTML := [], activitiesList := []\<rparr>"]
      by (simp add: p)
    with Response Parsed p show ?thesis
      by (cases e) (simp_all add: fetchActivities_catch_def)
  qed
qed

lemma handleUnregister_resume_clock:
  "now (handleUnregister_resume r s) = now s
   \<and> set (timers s) \<subseteq> set (timers (handleUnregister_resume r s))
   \<and> loginMessage (handleUnregister_resume r s) = loginMessage s"
  by (cases r rule: succeeded.cases)
     (auto simp: handleUnregister_catch_def fetchActivities_def ops split: sum.splits)

lemma signupForm_submit_resume_clock:
  "now (signupForm_submit_resume r s) = now s
   \<and> set (timers s) \<subseteq> set (timers (signupForm_submit_resume r s))
   \<and> loginMessage (signupForm_submit_resume r s) = loginMessage s"
  by (cases r rule: succeeded.cases)
     (auto simp: signupForm_submit_catch_def fetchActivities_def ops split: sum.splits)

lemma settle_clock:
  assumes "\<And>t. now (k t) = now t \<and> set (timers t) \<subseteq> set (timers (k t))"
  shows "now (settle P k s) = now s \<and> set (timers s) \<subseteq> set (timers (settle P k s))"
proof (cases "list_ex P (in_flight s)")
  case True
  then show ?thesis
    using assms [of "s\<lparr>in_flight := remove_first P (in_flight s)\<rparr>"] by (simp add: settle_def)
next
  case False
  then show ?thesis by (simp add: settle_def)
qed

lemma settle_loginMessage:
  assumes "\<And>t. loginMessage (k t) = loginMessage t"
  shows "loginMessage (settle P k s) = loginMessage s"
  using assms by (simp add: settle_def)

lemma advance_clock:
  "now (advance d s) = now s + d"
  "due \<in> set (timers s) \<Longrightarrow> now s + d < due \<Longrightarrow> due \<in> set (timers (advance d s))"
  "loginMessage (advance d s) = loginMessage s"
  by (simp_all add: advance_def Let_def messageDiv_hide_def)

text \<open>A timer that comes due hides the message element, whatever it shows.\<close>

lemma advance_fires:
  "due \<in> set (timers s) \<Longrightarrow> due \<le> now s + d \<Longrightarrow>
     is_hidden (classList (messageDiv (advance d s)))"
  by (auto simp: advance_def Let_def list_ex_iff ops)

text \<open>While no timer comes due, the passing of time leaves the message element alone.\<close>

lemma advance_idle:
  "list_all (\<lambda>due. now s + d < due) (timers s) \<Longrightarrow> messageDiv (advance d s) = messageDiv s"
  by (auto simp: advance_def Let_def list_ex_iff list_all_iff)

lemma step_clock:
  "now s \<le> now (step e s)
   \<and> (due \<in> set (timers s) \<and> now (step e s) < due \<longrightarrow> due \<in> set (timers (step e s)))"
proof (cases e)
  case (Verify_ends r)
  then show ?thesis using settle_clock [of "checkAuth_resume r" is_Verify s]
    by (auto simp: checkAuth_resume_clock)
next
  case (Login_ends r)
  then show ?thesis using settle_clock [of "loginForm_submit_resume r" is_Login s]
    by (auto simp: loginForm_submit_resume_clock)
next
  case (Logout_ends r)
  then show ?thesis using settle_clock [of "logoutBtn_click_resume r" is_Logout s]
    by (auto simp: logoutBtn_click_resume_clock)
next
  case (Activities_end r)
  then show ?thesis
    using settle_clock [of "fetchActivities_resume r" "\<lambda>q. q = Get_activities" s]
    by (auto simp: fetchActivities_resume_clock)
next
  case (Unregister_ends r)
  then show ?thesis using settle_clock [of "handleUnregister_resume r" is_Unregister s]
    by (auto simp: handleUnregister_resume_clock)
next
  case (Signup_ends r)
  then show ?thesis using settle_clock [of "signupForm_submit_resume r" is_Signup s]
    by (auto simp: signupForm_submit_resume_clock)
next
  case (Wait d)
  then show ?thesis by (auto simp: advance_clock)
qed (auto simp: loginBtn_click_def closeModal_click_def window_click_def loginForm_submit_def
       logoutBtn_click_def handleUnregister_def signupForm_submit_def ops)

lemma run_clock: "now s \<le> now (run es s)"
proof (induction es arbitrary: s)
  case Nil
  show ?case by simp
next
  case (Cons e es)
  have "now s \<le> now (step e s)" using step_clock by blast
  also have "\<dots> \<le> now (run es (step e s))" by (rule Cons.IH)
  finally show ?case by simp
qed

text \<open>A pending timer stays pending through every run of events that ends before it is due.\<close>

lemma run_keeps_timer:
  "due \<in> set (timers s) \<Longrightarrow> now (run es s) < due \<Longrightarrow> due \<in> set (timers (run es s))"
proof (induction es arbitrary: s)
  case Nil
  then show ?case by simp
next
  case (Cons e es)
  have "now (step e s) \<le> now (run es (step e s))" by (rule run_clock)
  with Cons.prems have "now (step e s) < due" by simp
  with Cons.prems have "due \<in> set (timers (step e s))" using step_clock by blast
  with Cons.prems show ?case by (simp add: Cons.IH)
qed

lemma timer_fires_after_run:
  assumes "due \<in> set (timers s)" and "now (run es s) < due"
  shows "due \<in> set (timers (run es s))
       \<and> is_hidden (classList (messageDiv (advance (due - now (run es s)) (run es s))))"
proof -
  have pending: "due \<in> set (timers (run es s))"
    using assms by (rule run_keeps_timer)
  have "due \<le> now (run es s) + (due - now (run es s))"
    using assms(2) by simp
  with pending show ?thesis by (simp add: advance_fires)
qed

lemma step_keeps_loginMessage:
  "keeps_loginMessage e \<Longrightarrow> loginMessage (step e s) = loginMessage s"
proof (cases e)
  case (Verify_ends r)
  then show ?thesis by (simp add: settle_loginMessage checkAuth_resume_clock)
next
  case (Logout_ends r)
  then show ?thesis by (simp add: settle_loginMessage logoutBtn_click_resume_clock)
next
  case (Activities_end r)
  then show ?thesis by (simp add: settle_loginMessage fetchActivities_resume_clock)
next
  case (Unregister_ends r)
  then show ?thesis by (simp add: settle_loginMessage handleUnregister_resume_clock)
next
  case (Signup_ends r)
  then show ?thesis by (simp add: settle_loginMessage signupForm_submit_resume_clock)
next
  case (Wait d)
  then show ?thesis by (simp add: advance_clock)
qed (auto simp: loginBtn_click_def closeModal_click_def window_click_def loginForm_submit_def
       logoutBtn_click_def handleUnregister_def signupForm_submit_def ops)

lemma run_keeps_loginMessage:
  "list_all keeps_loginMessage es \<Longrightarrow> loginMessage (run es s) = loginMessage s"
  by (induction es arbitrary: s) (simp_all add: step_keeps_loginMessage)

section \<open>Dismissal of notifications\<close>

text \<open>
  Claim C8, as amended. Every notification shown in the message element replaces the text
  and the kind of whatever that element held before and makes the element visible, so
  the message element shows one notification at a time; the notice of a failed login is
  shown in the element of the login modal, leaves the message element as it is, and can
  be visible together with it. A new show does not reset the dismissal timer: a timer
  that is pending stays pending through every later event until it is due, and when it
  is due it hides the message element, whatever it shows then. So if a second
  notification is shown in the message element before the first one's interval has
  passed, the element is hidden at the moment the first notification's timer fires, also
  when the second notification's own interval has not passed yet.
\<close>

theorem pending_timer_hides_later_notification:
  "(\<not> isAuthenticated s \<longrightarrow>
      messageDiv (handleUnregister button (s\<lparr>messageDiv := m\<rparr>))
        = messageDiv (handleUnregister button s)
    \<and> \<not> is_hidden (classList (messageDiv (handleUnregister button s)))
    \<and> messageDiv (signupForm_submit email activity (s\<lparr>messageDiv := m\<rparr>))
        = messageDiv (signupForm_submit email activity s)
    \<and> \<not> is_hidden (classList (messageDiv (signupForm_submit email activity s))))
 \<and> messageDiv (handleUnregister_resume q (s\<lparr>messageDiv := m\<rparr>))
      = messageDiv (handleUnregister_resume q s)
 \<and> \<not> is_hidden (classList (messageDiv (handleUnregister_resume q s)))
 \<and> messageDiv (signupForm_submit_resume q (s\<lparr>messageDiv := m\<rparr>))
      = messageDiv (signupForm_submit_resume q s)
 \<and> \<not> is_hidden (classList (messageDiv (signupForm_submit_resume q s)))
 \<and> messageDiv (logoutBtn_click_resume q (s\<lparr>messageDiv := m\<rparr>))
      = messageDiv (logoutBtn_click_resume q s)
 \<and> \<not> is_hidden (classList (messageDiv (logoutBtn_click_resume q s)))
 \<and> (succeeded r \<longrightarrow>
      messageDiv (loginForm_submit_resume r (s\<lparr>messageDiv := m\<rparr>))
        = messageDiv (loginForm_submit_resume r s)
    \<and> \<not> is_hidden (classList (messageDiv (loginForm_submit_resume r s))))
 \<and> (\<not> succeeded r \<longrightarrow>
      messageDiv (loginForm_submit_resume r s) = messageDiv s
    \<and> \<not> is_hidden (classList (loginMessage (loginForm_submit_resume r s))))
 \<and> (due \<in> set (timers s) \<and> now (run es s) < due \<longrightarrow>
      due \<in> set (timers (run es s))
    \<and> is_hidden (classList (messageDiv (advance (due - now (run es s)) (run es s)))))"
proof -
  have gate: "messageDiv (handleUnregister button (s\<lparr>messageDiv := m\<rparr>))
        = messageDiv (handleUnregister button s)
    \<and> \<not> is_hidden (classList (messageDiv (handleUnregister button s)))
    \<and> messageDiv (signupForm_submit email activity (s\<lparr>messageDiv := m\<rparr>))
        = messageDiv (signupForm_submit email activity s)
    \<and> \<not> is_hidden (classList (messageDiv (signupForm_submit email activity s)))"
    if "\<not> isAuthenticated s"
    using that by (simp add: handleUnregister_def signupForm_submit_def ops)
  have answered: "messageDiv (handleUnregister_resume q (t\<lparr>messageDiv := m\<rparr>))
      = messageDiv (handleUnregister_resume q t)
    \<and> \<not> is_hidden (classList (messageDiv (handleUnregister_resume q t)))
    \<and> messageDiv (signupForm_submit_resume q (t\<lparr>messageDiv := m\<rparr>))
      = messageDiv (signupForm_submit_resume q t)
    \<and> \<not> is_hidden (classList (messageDiv (signupForm_submit_resume q t)))" for t
    by (cases q rule: succeeded.cases)
       (simp_all add: handleUnregister_catch_def signupForm_submit_catch_def
          fetchActivities_def ops split: sum.splits)
  have logout: "messageDiv (logoutBtn_click_resume q (s\<lparr>messageDiv := m\<rparr>))
      = messageDiv (logoutBtn_click_resume q s)
    \<and> \<not> is_hidden (classList (messageDiv (logoutBtn_click_resume q s)))"
    by (simp add: logoutBtn_click_resume_def ops)
  have login: "messageDiv (loginForm_submit_resume r (s\<lparr>messageDiv := m\<rparr>))
        = messageDiv (loginForm_submit_resume r s)
    \<and> \<not> is_hidden (classList (messageDiv (loginForm_submit_resume r s)))"
    if ok: "succeeded r"
  proof -
    obtain body where r: "r = Response True (Parsed body)" and n: "body \<noteq> JNull"
      using succeeded_cases [OF ok] by blast
    obtain token username where p: "property body ''token'' = Inr token"
        "property body ''username'' = Inr username"
      using property_not_null [OF n] by blast
    show ?thesis by (simp add: r p ops)
  qed
  have failed: "messageDiv (loginForm_submit_resume r s) = messageDiv s
    \<and> \<not> is_hidden (classList (loginMessage (loginForm_submit_resume r s)))"
    if ns: "\<not> succeeded r"
  proof -
    consider (rejected) "r = Rejected"
      | (unparseable) ok' where "r = Response ok' Unparseable"
      | (null) ok' where "r = Response ok' (Parsed JNull)"
      | (refused) body where "r = Response False (Parsed body)" "body \<noteq> JNull"
      using not_succeeded_cases [OF ns] by blast
    then show ?thesis
    proof cases
      case refused
      obtain detail where dt: "property body ''detail'' = Inr detail"
        using property_not_null [OF refused(2)] by blast
      show ?thesis by (simp add: refused dt ops)
    qed (simp_all add: loginForm_submit_catch_def ops)
  qed
  have timer: "due \<in> set (timers (run es s))
    \<and> is_hidden (classList (messageDiv (advance (due - now (run es s)) (run es s))))"
    if "due \<in> set (timers s)" and "now (run es s) < due"
    using that by (rule timer_fires_after_run)
  show ?thesis using gate answered [of s] logout login failed timer by blast
qed

text \<open>
  The visitor is refused an unregister at time 0, waits four seconds and is refused a
  signup: the second notice takes the place of the first, the timer of the first is
  still pending, and one second later it hides the second notice. A login that is
  refused in between leaves the notice of the gate where it is and shows its own notice
  beside it.
\<close>

theorem pending_timer_hides_later_notification_witness:
  "\<not> isAuthenticated (handleUnregister delete_a visitor)
   \<and> \<not> succeeded (Response False (Parsed invalid_credentials))
   \<and> messageDiv (signupForm_submit ''b@x.com'' ''Chess Club''
        (handleUnregister delete_a visitor))
       = \<lparr>textContent = ''Please login as a teacher to register students.'',
          classList = [''error'']\<rparr>
   \<and> messageDiv (signupForm_submit ''b@x.com'' ''Chess Club''
        ((handleUnregister delete_a visitor)
           \<lparr>messageDiv := \<lparr>textContent = [], classList = [''hidden'']\<rparr>\<rparr>))
       = \<lparr>textContent = ''Please login as a teacher to register students.'',
          classList = [''error'']\<rparr>
   \<and> \<not> is_hidden (classList (messageDiv
        (loginForm_submit_resume (Response False (Parsed invalid_credentials))
           (handleUnregister delete_a visitor))))
   \<and> \<not> is_hidden (classList (loginMessage
        (loginForm_submit_resume (Response False (Parsed invalid_credentials))
           (handleUnregister delete_a visitor))))
   \<and> 5000 \<in> set (timers (handleUnregister delete_a visitor))
   \<and> now (run [Wait 4000, Submit_signupForm ''b@x.com'' ''Chess Club'']
            (handleUnregister delete_a visitor)) = 4000
   \<and> textContent (messageDiv (run [Wait 4000, Submit_signupForm ''b@x.com'' ''Chess Club'']
            (handleUnregister delete_a visitor)))
       = ''Please login as a teacher to register students.''
   \<and> 5000 \<in> set (timers (run [Wait 4000, Submit_signupForm ''b@x.com'' ''Chess Club'']
            (handleUnregister delete_a visitor)))
   \<and> is_hidden (classList (messageDiv (advance 1000
        (run [Wait 4000, Submit_signupForm ''b@x.com'' ''Chess Club'']
            (handleUnregister delete_a visitor)))))"
proof -
  have v: "\<not> isAuthenticated (handleUnregister delete_a visitor)"
    by (simp add: exs handleUnregister_def ops)
  have f: "\<not> succeeded (Response False (Parsed invalid_credentials))" by simp
  have g: "messageDiv (handleUnregister delete_a visitor)
      = \<lparr>textContent = ''Please login as a teacher to unregister students.'',
         classList = [''error'']\<rparr>"
    by (simp add: exs handleUnregister_def ops)
  have second: "messageDiv (signupForm_submit ''b@x.com'' ''Chess Club''
        (handleUnregister delete_a visitor))
       = \<lparr>textContent = ''Please login as a teacher to register students.'',
          classList = [''error'']\<rparr>"
    by (simp add: exs handleUnregister_def signupForm_submit_def ops)
  have t: "5000 \<in> set (timers (handleUnregister delete_a visitor))"
    by (simp add: exs handleUnregister_def ops)
  have n: "now (run [Wait 4000, Submit_signupForm ''b@x.com'' ''Chess Club'']
             (handleUnregister delete_a visitor)) = 4000"
    by (simp add: exs handleUnregister_def signupForm_submit_def advance_def Let_def ops)
  have x: "textContent (messageDiv (run [Wait 4000, Submit_signupForm ''b@x.com'' ''Chess Club'']
            (handleUnregister delete_a visitor)))
       = ''Please login as a teacher to register students.''"
    by (simp add: exs handleUnregister_def signupForm_submit_def advance_def Let_def ops)
  note inst = pending_timer_hides_later_notification
    [where s = "handleUnregister delete_a visitor"
       and m = "\<lparr>textContent = [], classList = [''hidden'']\<rparr>"
       and button = delete_a and email = "''b@x.com''" and activity = "''Chess Club''"
       and q = Rejected and r = "Response False (Parsed invalid_credentials)"
       and due = 5000 and es = "[Wait 4000, Submit_signupForm ''b@x.com'' ''Chess Club'']"]
  show ?thesis
    using v f g second t n x inst by (simp add: is_hidden_def)
qed

text \<open>
  The claim as it was stated lets the second notification stay for its own interval. In
  the same run the second notice is shown at 4000 with its timer due at 9000, and at
  5000 it is hidden.
\<close>

theorem second_notification_hidden_early:
  "\<not> is_hidden (classList (messageDiv
       (run [Click_delete delete_a, Wait 4000, Submit_signupForm ''b@x.com'' ''Chess Club'']
          visitor)))
   \<and> timers (run [Click_delete delete_a, Wait 4000,
                  Submit_signupForm ''b@x.com'' ''Chess Club''] visitor) = [5000, 9000]
   \<and> now (run [Click_delete delete_a, Wait 4000, Submit_signupForm ''b@x.com'' ''Chess Club'',
               Wait 1000] visitor) = 5000
   \<and> is_hidden (classList (messageDiv
       (run [Click_delete delete_a, Wait 4000, Submit_signupForm ''b@x.com'' ''Chess Club'',
             Wait 1000] visitor)))"
  by (simp add: exs handleUnregister_def signupForm_submit_def advance_def Let_def ops)

text \<open>
  Claim C9, as amended. Every notification that comes with a timer is dismissed after its
  interval: 3000 ms for the success messages of login and logout, 5000 ms for the notice
  of the gate and for the outcome of a signup or an unregister whose response body was
  read (accepted or refused by the service). Each of them is visible when it is shown
  and its timer is pending with the stated delay; the timer stays pending through every
  later event until the interval has passed, at that moment the message element is
  hidden, and when nothing else happens it is still hidden after any longer wait. The
  notice of a signup or an unregister that failed without a readable body (the call was
  rejected, or the body did not parse or parsed to \<^verbatim>\<open>null\<close>) is shown without a
  timer of its own: it is hidden when a timer left pending by an earlier notification
  comes due, and as long as no pending timer comes due the passing of time does not
  hide it.
\<close>

theorem timed_notifications_are_dismissed:
  "(succeeded r \<longrightarrow>
      \<not> is_hidden (classList (messageDiv (loginForm_submit_resume r s)))
    \<and> now s + 3000 \<in> set (timers (loginForm_submit_resume r s))
    \<and> is_hidden (classList (messageDiv (advance (3000 + e) (loginForm_submit_resume r s)))))
 \<and> \<not> is_hidden (classList (messageDiv (logoutBtn_click_resume q s)))
 \<and> now s + 3000 \<in> set (timers (logoutBtn_click_resume q s))
 \<and> is_hidden (classList (messageDiv (advance (3000 + e) (logoutBtn_click_resume q s))))
 \<and> (\<not> isAuthenticated s \<longrightarrow>
      \<not> is_hidden (classList (messageDiv (handleUnregister button s)))
    \<and> now s + 5000 \<in> set (timers (handleUnregister button s))
    \<and> is_hidden (classList (messageDiv (advance (5000 + e) (handleUnregister button s))))
    \<and> \<not> is_hidden (classList (messageDiv (signupForm_submit email activity s)))
    \<and> now s + 5000 \<in> set (timers (signupForm_submit email activity s))
    \<and> is_hidden (classList (messageDiv
         (advance (5000 + e) (signupForm_submit email activity s)))))
 \<and> (result \<noteq> JNull \<longrightarrow>
      \<not> is_hidden (classList (messageDiv
         (handleUnregister_resume (Response ok (Parsed result)) s)))
    \<and> now s + 5000 \<in> set (timers (handleUnregister_resume (Response ok (Parsed result)) s))
    \<and> is_hidden (classList (messageDiv
         (advance (5000 + e) (handleUnregister_resume (Response ok (Parsed result)) s))))
    \<and> \<not> is_hidden (classList (messageDiv
         (signupForm_submit_resume (Response ok (Parsed result)) s)))
    \<and> now s + 5000 \<in> set (timers (signupForm_submit_resume (Response ok (Parsed result)) s))
    \<and> is_hidden (classList (messageDiv
         (advance (5000 + e) (signupForm_submit_resume (Response ok (Parsed result)) s)))))
 \<and> (due \<in> set (timers t) \<and> now (run es t) < due \<longrightarrow>
      due \<in> set (timers (run es t))
    \<and> is_hidden (classList (messageDiv (advance (due - now (run es t)) (run es t)))))
 \<and> (c = Rejected \<or> c = Response ok Unparseable \<or> c = Response ok (Parsed JNull) \<longrightarrow>
      timers (handleUnregister_resume c s) = timers s
    \<and> \<not> is_hidden (classList (messageDiv (handleUnregister_resume c s)))
    \<and> (list_all (\<lambda>due. now s + d < due) (timers s) \<longrightarrow>
          \<not> is_hidden (classList (messageDiv (advance d (handleUnregister_resume c s)))))
    \<and> (earlier \<in> set (timers s) \<and> earlier \<le> now s + d \<longrightarrow>
          is_hidden (classList (messageDiv (advance d (handleUnregister_resume c s)))))
    \<and> timers (signupForm_submit_resume c s) = timers s
    \<and> \<not> is_hidden (classList (messageDiv (signupForm_submit_resume c s)))
    \<and> (list_all (\<lambda>due. now s + d < due) (timers s) \<longrightarrow>
          \<not> is_hidden (classList (messageDiv (advance d (signupForm_submit_resume c s)))))
    \<and> (earlier \<in> set (timers s) \<and> earlier \<le> now s + d \<longrightarrow>
          is_hidden (classList (messageDiv (advance d (signupForm_submit_resume c s))))))"
proof -
  have login: "\<not> is_hidden (classList (messageDiv (loginForm_submit_resume r s)))
    \<and> now s + 3000 \<in> set (timers (loginForm_submit_resume r s))
    \<and> is_hidden (classList (messageDiv (advance (3000 + e) (loginForm_submit_resume r s))))"
    if ok: "succeeded r"
  proof -
    obtain body where r: "r = Response True (Parsed body)" and n: "body \<noteq> JNull"
      using succeeded_cases [OF ok] by blast
    obtain token username where p: "property body ''token'' = Inr token"
        "property body ''username'' = Inr username"
      using property_not_null [OF n] by blast
    show ?thesis by (simp add: r p advance_def Let_def ops)
  qed
  have logout: "\<not> is_hidden (classList (messageDiv (logoutBtn_click_resume q s)))
    \<and> now s + 3000 \<in> set (timers (logoutBtn_click_resume q s))
    \<and> is_hidden (classList (messageDiv (advance (3000 + e) (logoutBtn_click_resume q s))))"
    by (simp add: logoutBtn_click_resume_def advance_def Let_def ops)
  have gate: "\<not> is_hidden (classList (messageDiv (handleUnregister button s)))
    \<and> now s + 5000 \<in> set (timers (handleUnregister button s))
    \<and> is_hidden (classList (messageDiv (advance (5000 + e) (handleUnregister button s))))
    \<and> \<not> is_hidden (classList (messageDiv (signupForm_submit email activity s)))
    \<and> now s + 5000 \<in> set (timers (signupForm_submit email activity s))
    \<and> is_hidden (classList (messageDiv
         (advance (5000 + e) (signupForm_submit email activity s))))"
    if "\<not> isAuthenticated s"
    using that
    by (simp add: handleUnregister_def signupForm_submit_def advance_def Let_def ops)
  have answered: "\<not> is_hidden (classList (messageDiv
         (handleUnregister_resume (Response ok (Parsed result)) s)))
    \<and> now s + 5000 \<in> set (timers (handleUnregister_resume (Response ok (Parsed result)) s))
    \<and> is_hidden (classList (messageDiv
         (advance (5000 + e) (handleUnregister_resume (Response ok (Parsed result)) s))))
    \<and> \<not> is_hidden (classList (messageDiv
         (signupForm_submit_resume (Response ok (Parsed result)) s)))
    \<and> now s + 5000 \<in> set (timers (signupForm_submit_resume (Response ok (Parsed result)) s))
    \<and> is_hidden (classList (messageDiv
         (advance (5000 + e) (signupForm_submit_resume (Response ok (Parsed result)) s))))"
    if n: "result \<noteq> JNull"
  proof -
    obtain message detail where p: "property result ''message'' = Inr message"
        "property result ''detail'' = Inr detail"
      using property_not_null [OF n] by blast
    show ?thesis by (simp add: p advance_def Let_def fetchActivities_def ops)
  qed
  have timer: "due \<in> set (timers (run es t))
    \<and> is_hidden (classList (messageDiv (advance (due - now (run es t)) (run es t))))"
    if "due \<in> set (timers t)" and "now (run es t) < due"
    using that by (rule timer_fires_after_run)
  have unread: "timers (handleUnregister_resume c s) = timers s
    \<and> \<not> is_hidden (classList (messageDiv (handleUnregister_resume c s)))
    \<and> (list_all (\<lambda>due. now s + d < due) (timers s) \<longrightarrow>
          \<not> is_hidden (classList (messageDiv (advance d (handleUnregister_resume c s)))))
    \<and> (earlier \<in> set (timers s) \<and> earlier \<le> now s + d \<longrightarrow>
          is_hidden (classList (messageDiv (advance d (handleUnregister_resume c s)))))
    \<and> timers (signupForm_submit_resume c s) = timers s
    \<and> \<not> is_hidden (classList (messageDiv (signupForm_submit_resume c s)))
    \<and> (list_all (\<lambda>due. now s + d < due) (timers s) \<longrightarrow>
          \<not> is_hidden (classList (messageDiv (advance d (signupForm_submit_resume c s)))))
    \<and> (earlier \<in> set (timers s) \<and> earlier \<le> now s + d \<longrightarrow>
          is_hidden (classList (messageDiv (advance d (signupForm_submit_resume c s)))))"
    if cb: "c = Rejected \<or> c = Response ok Unparseable \<or> c = Response ok (Parsed JNull)"
  proof -
    have u: "handleUnregister_resume c s = handleUnregister_catch s"
      and g: "signupForm_submit_resume c s = signupForm_submit_catch s"
      using cb by auto
    have tu: "timers (handleUnregister_catch s) = timers s"
      and nu: "now (handleUnregister_catch s) = now s"
      and vu: "\<not> is_hidden (classList (messageDiv (handleUnregister_catch s)))"
      and tg: "timers (signupForm_submit_catch s) = timers s"
      and ng: "now (signupForm_submit_catch s) = now s"
      and vg: "\<not> is_hidden (classList (messageDiv (signupForm_submit_catch s)))"
      by (simp_all add: handleUnregister_catch_def signupForm_submit_catch_def ops)
    have idle_u: "\<not> is_hidden (classList (messageDiv (advance d (handleUnregister_catch s))))"
      if "list_all (\<lambda>due. now s + d < due) (timers s)"
      using that vu advance_idle [of "handleUnregister_catch s" d] by (simp add: tu nu)
    have idle_g: "\<not> is_hidden (classList (messageDiv (advance d (signupForm_submit_catch s))))"
      if "list_all (\<lambda>due. now s + d < due) (timers s)"
      using that vg advance_idle [of "signupForm_submit_catch s" d] by (simp add: tg ng)
    have fire_u: "is_hidden (classList (messageDiv (advance d (handleUnregister_catch s))))"
      if "earlier \<in> set (timers s)" and "earlier \<le> now s + d"
      using that advance_fires [of earlier "handleUnregister_catch s" d] by (simp add: tu nu)
    have fire_g: "is_hidden (classList (messageDiv (advance d (signupForm_submit_catch s))))"
      if "earlier \<in> set (timers s)" and "earlier \<le> now s + d"
      using that advance_fires [of earlier "signupForm_submit_catch s" d] by (simp add: tg ng)
    show ?thesis
      unfolding u g using tu vu tg vg idle_u idle_g fire_u fire_g by blast
  qed
  show ?thesis using login logout gate answered timer unread by blast
qed

text \<open>
  The visitor logs in, is refused at the gate before that, and a signup is refused by
  the service: one millisecond after its interval each message is hidden. The teacher's
  unregister call is rejected after an accepted signup: the notice comes with no timer,
  stays while the timer of the signup is pending, and is hidden when that timer fires.
\<close>

theorem timed_notifications_are_dismissed_witness:
  "succeeded (Response True (Parsed logged_in))
   \<and> \<not> isAuthenticated visitor
   \<and> JObj [(''detail'', JStr ''Activity is full'')] \<noteq> JNull
   \<and> is_hidden (classList (messageDiv
        (advance 3001 (loginForm_submit_resume (Response True (Parsed logged_in)) visitor))))
   \<and> is_hidden (classList (messageDiv (advance 3001 (logoutBtn_click_resume Rejected visitor))))
   \<and> is_hidden (classList (messageDiv (advance 5001 (handleUnregister delete_a visitor))))
   \<and> is_hidden (classList (messageDiv
        (advance 5001 (signupForm_submit ''b@x.com'' ''Chess Club'' visitor))))
   \<and> is_hidden (classList (messageDiv
        (advance 5001 (signupForm_submit_resume activity_full visitor))))
   \<and> \<not> is_hidden (classList (messageDiv (signupForm_submit_resume activity_full visitor)))
   \<and> timers (signupForm_submit_resume signed_up teacher) = [5000]
   \<and> now (run [Wait 1000] (signupForm_submit_resume signed_up teacher)) = 1000
   \<and> is_hidden (classList (messageDiv
        (advance 4000 (run [Wait 1000] (signupForm_submit_resume signed_up teacher)))))
   \<and> timers (handleUnregister_resume Rejected (signupForm_submit_resume signed_up teacher))
       = [5000]
   \<and> \<not> is_hidden (classList (messageDiv
        (advance 4999
           (handleUnregister_resume Rejected (signupForm_submit_resume signed_up teacher)))))
   \<and> is_hidden (classList (messageDiv
        (advance 5000
           (handleUnregister_resume Rejected (signupForm_submit_resume signed_up teacher)))))"
proof -
  have ok: "succeeded (Response True (Parsed logged_in))" by (simp add: logged_in_def)
  have v: "\<not> isAuthenticated visitor" by (simp add: exs ops)
  have ts: "timers (signupForm_submit_resume signed_up teacher) = [5000]"
    by (simp add: exs signed_up_def ops)
  have ns: "now (signupForm_submit_resume signed_up teacher) = 0"
    by (simp add: exs signed_up_def ops)
  have nw: "now (run [Wait 1000] (signupForm_submit_resume signed_up teacher)) = 1000"
    by (simp add: ns advance_clock)
  note general = timed_notifications_are_dismissed
    [where r = "Response True (Parsed logged_in)" and s = visitor and e = 1
       and q = Rejected and button = delete_a and email = "''b@x.com''"
       and activity = "''Chess Club''"
       and result = "JObj [(''detail'', JStr ''Activity is full'')]" and ok = False
       and t = "signupForm_submit_resume signed_up teacher" and due = 5000
       and es = "[Wait 1000]" and c = Rejected and d = 0 and earlier = 0]
  note early = timed_notifications_are_dismissed
    [where r = Rejected and s = "signupForm_submit_resume signed_up teacher" and e = 0
       and q = Rejected and button = delete_a and email = "[]" and activity = "[]"
       and result = JNull and ok = False and t = visitor and due = 0 and es = "[]"
       and c = Rejected and d = 4999 and earlier = 5000]
  note late = timed_notifications_are_dismissed
    [where r = Rejected and s = "signupForm_submit_resume signed_up teacher" and e = 0
       and q = Rejected and button = delete_a and email = "[]" and activity = "[]"
       and result = JNull and ok = False and t = visitor and due = 0 and es = "[]"
       and c = Rejected and d = 5000 and earlier = 5000]
  show ?thesis
    using ok v ts ns nw general early late by (simp add: activity_full_def)
qed

text \<open>
  The claim as it was stated has every outcome of a signup or an unregister dismissed
  after 5000 ms. The teacher's unregister call is rejected by the network: the notice is
  shown with no timer, and it is still there long after.
\<close>

theorem rejected_unregister_notice_stays:
  "timers (run [Click_delete delete_a, Unregister_ends Rejected] teacher) = []
   \<and> textContent (messageDiv
        (run [Click_delete delete_a, Unregister_ends Rejected, Wait 5001] teacher))
       = ''Failed to unregister. Please try again.''
   \<and> \<not> is_hidden (classList (messageDiv
        (run [Click_delete delete_a, Unregister_ends Rejected, Wait 5001] teacher)))
   \<and> \<not> is_hidden (classList (messageDiv
        (run [Click_delete delete_a, Unregister_ends Rejected, Wait 1000000] teacher)))"
  by (simp add: exs handleUnregister_def handleUnregister_catch_def advance_def Let_def ops)

text \<open>
  Claim C10, as amended. After a failed login (the call is rejected, the body does not
  parse or parses to \<^verbatim>\<open>null\<close>, or the response is not \<^verbatim>\<open>ok\<close>) the error is
  shown in the message of the login modal and no timer is set. The message stays as it
  is through every later event, the passing of time included, except a click that
  closes the modal and the end of a later login call; closing the modal hides it.
\<close>

theorem failed_login_notice_stays:
  assumes "\<not> succeeded r" and "list_all keeps_loginMessage es"
  shows "timers (loginForm_submit_resume r s) = timers s
       \<and> classList (loginMessage (loginForm_submit_resume r s)) = [''error'']
       \<and> \<not> is_hidden (classList (loginMessage (loginForm_submit_resume r s)))
       \<and> loginMessage (run es (loginForm_submit_resume r s))
           = loginMessage (loginForm_submit_resume r s)
       \<and> is_hidden (classList (loginMessage
            (closeModal_click (run es (loginForm_submit_resume r s)))))
       \<and> is_hidden (classList (loginMessage
            (window_click True (run es (loginForm_submit_resume r s)))))"
proof -
  have shown: "timers (loginForm_submit_resume r s) = timers s
       \<and> classList (loginMessage (loginForm_submit_resume r s)) = [''error'']"
  proof -
    consider (rejected) "r = Rejected"
      | (unparseable) ok' where "r = Response ok' Unparseable"
      | (null) ok' where "r = Response ok' (Parsed JNull)"
      | (refused) body where "r = Response False (Parsed body)" "body \<noteq> JNull"
      using not_succeeded_cases [OF assms(1)] by blast
    then show ?thesis
    proof cases
      case refused
      obtain detail where dt: "property body ''detail'' = Inr detail"
        using property_not_null [OF refused(2)] by blast
      show ?thesis by (simp add: refused dt ops)
    qed (simp_all add: loginForm_submit_catch_def ops)
  qed
  have stays: "loginMessage (run es (loginForm_submit_resume r s))
           = loginMessage (loginForm_submit_resume r s)"
    using assms(2) by (rule run_keeps_loginMessage)
  have closes: "is_hidden (classList (loginMessage (closeModal_click t)))
      \<and> is_hidden (classList (loginMessage (window_click True t)))" for t
    by (simp add: closeModal_click_def window_click_def ops)
  show ?thesis using shown stays closes by (simp add: is_hidden_def)
qed

text \<open>
  The visitor's login is refused with the detail \<^verbatim>\<open>Invalid credentials\<close>; then a
  long time passes, the visitor is refused at the gate, and more time passes.
\<close>

theorem failed_login_notice_stays_witness:
  "\<not> succeeded (Response False (Parsed invalid_credentials))
   \<and> list_all keeps_loginMessage [Wait 1000000, Click_delete delete_a, Wait 5000]
   \<and> timers (loginForm_submit_resume (Response False (Parsed invalid_credentials)) visitor)
       = []
   \<and> loginMessage (run [Wait 1000000, Click_delete delete_a, Wait 5000]
        (loginForm_submit_resume (Response False (Parsed invalid_credentials)) visitor))
       = \<lparr>textContent = ''Invalid credentials'', classList = [''error'']\<rparr>"
proof -
  have a: "\<not> succeeded (Response False (Parsed invalid_credentials))" by simp
  have b: "list_all keeps_loginMessage [Wait 1000000, Click_delete delete_a, Wait 5000]"
    by simp
  have t: "timers visitor = []" by (simp add: exs ops)
  have m: "loginMessage (loginForm_submit_resume (Response False (Parsed invalid_credentials))
             visitor) = \<lparr>textContent = ''Invalid credentials'', classList = [''error'']\<rparr>"
    by (simp add: invalid_credentials_def or_else_def exs ops)
  show ?thesis
    using a b t m failed_login_notice_stays [OF a b, of visitor] by simp
qed

text \<open>
  The claim as it was stated sets the failed login apart from every other notification.
  The notice of the teacher's signup that the network rejected has no timer either, and
  it is still shown long after.
\<close>

theorem rejected_signup_notice_stays:
  "timers (run [Submit_signupForm ''b@x.com'' ''Chess Club'', Signup_ends Rejected] teacher)
     = []
   \<and> messageDiv (run [Submit_signupForm ''b@x.com'' ''Chess Club'', Signup_ends Rejected,
                      Wait 1000000] teacher)
       = \<lparr>textContent = ''Failed to sign up. Please try again.'', classList = [''error'']\<rparr>
   \<and> \<not> is_hidden (classList (messageDiv
        (run [Submit_signupForm ''b@x.com'' ''Chess Club'', Signup_ends Rejected,
              Wait 1000000] teacher)))"
  by (simp add: exs signupForm_submit_def signupForm_submit_catch_def advance_def Let_def ops)

end
